theory Spec2Isabelle
  imports Main "HOL-Library.Char_ord" "HOL-Library.List_Lexorder"
begin

section \<open>Data model of the node registry\<close>

text \<open>
  The registry of \<^verbatim>\<open>src/unnamed/part_000\<close> (package \<^verbatim>\<open>nodes\<close>) keeps Go pointers
  to \<^verbatim>\<open>types.NodeDiscoveryMessage\<close> values, and each node holds references to three Go
  maps. Two nodes may share a map object, so nodes and maps live in an explicit store
  and are referred to by address. A Go map of pointers may hold a key whose value is the
  nil pointer (\<^verbatim>\<open>SetNodeID\<close> stores one), so the registry's maps range over
  \<open>ptr option\<close>, with \<open>None\<close> for nil.

  Package \<^verbatim>\<open>types\<close>, which declares the messages and the string constants, is not
  among the sources. The records below have the fields the code reads and writes; the
  string constants the code uses are collected in the record \<open>Types\<close>, which every
  function that uses one of them takes as its first argument.
\<close>

type_synonym ptr = nat

record ConfigAttr =
  DataType :: string
  Description :: string
  Default :: string

record NodeDiscoveryMessage =
  Address :: string
  Attr :: ptr
  Config :: ptr
  HWID :: string
  NodeID :: string
  PublisherID :: string
  Status :: ptr
  Timestamp :: string

text \<open>
  The fields \<open>Attr\<close>, \<open>Config\<close> and \<open>Status\<close> are references to map objects of the
  store. Go's nil map is not modelled: \<^verbatim>\<open>NewNode\<close> and \<^verbatim>\<open>Clone\<close> allocate the maps of every
  node they return, and \<^verbatim>\<open>UpdateNodes\<close> fills in the missing ones of a loaded node.
\<close>

record Types =
  MessageTypeNodeDiscovery :: string
  MessageTypeInputDiscovery :: string
  NodeAttrType :: string
  NodeAttrName :: string
  NodeAttrPublishEvent :: string
  NodeAttrPublishHistory :: string
  NodeAttrPublishLatest :: string
  NodeAttrPublishRaw :: string
  DataTypeString :: string
  DataTypeBool :: string
  NodeStatusLastError :: string
  NodeStatusRunState :: string
  DSSPublisherID :: string

text \<open>
  The store: the node objects and the map objects by address, the next free address, and
  the wall clock as the sequence of the formatted readings that successive calls of
  \<^verbatim>\<open>time.Now().Format(types.TimeFormat)\<close> return.
\<close>

record Store =
  nodes :: "ptr \<Rightarrow> NodeDiscoveryMessage"
  attrMaps :: "ptr \<Rightarrow> (string \<rightharpoonup> string)"
  configMaps :: "ptr \<Rightarrow> (string \<rightharpoonup> ConfigAttr)"
  statusMaps :: "ptr \<Rightarrow> (string \<rightharpoonup> string)"
  nextPtr :: ptr
  clock :: "nat \<Rightarrow> string"
  ticks :: nat

record RegisteredNodes =
  domain :: string
  publisherID :: string
  deviceMap :: "string \<rightharpoonup> ptr option"
  nodeMap :: "string \<rightharpoonup> ptr option"
  updatedNodes :: "(string \<rightharpoonup> ptr option) option"

text \<open>Reading \<^verbatim>\<open>m[key]\<close> from a Go map of pointers: nil when the key is absent.\<close>

definition lookupPtr :: "(string \<rightharpoonup> ptr option) \<Rightarrow> string \<Rightarrow> ptr option" where
  "lookupPtr m key = (case m key of None \<Rightarrow> None | Some p \<Rightarrow> p)"

definition timeNow :: "Store \<Rightarrow> string \<times> Store" where
  "timeNow h = (clock h (ticks h), h\<lparr>ticks := ticks h + 1\<rparr>)"

definition allocAttr :: "Store \<Rightarrow> (string \<rightharpoonup> string) \<Rightarrow> ptr \<times> Store" where
  "allocAttr h m = (nextPtr h, h\<lparr>attrMaps := (attrMaps h)(nextPtr h := m), nextPtr := nextPtr h + 1\<rparr>)"

definition allocConfig :: "Store \<Rightarrow> (string \<rightharpoonup> ConfigAttr) \<Rightarrow> ptr \<times> Store" where
  "allocConfig h m = (nextPtr h, h\<lparr>configMaps := (configMaps h)(nextPtr h := m), nextPtr := nextPtr h + 1\<rparr>)"

definition allocStatus :: "Store \<Rightarrow> (string \<rightharpoonup> string) \<Rightarrow> ptr \<times> Store" where
  "allocStatus h m = (nextPtr h, h\<lparr>statusMaps := (statusMaps h)(nextPtr h := m), nextPtr := nextPtr h + 1\<rparr>)"

definition allocNode :: "Store \<Rightarrow> NodeDiscoveryMessage \<Rightarrow> ptr \<times> Store" where
  "allocNode h n = (nextPtr h, h\<lparr>nodes := (nodes h)(nextPtr h := n), nextPtr := nextPtr h + 1\<rparr>)"

text \<open>\<^verbatim>\<open>node.Attr[key] = value\<close>, \<^verbatim>\<open>node.Config[key] = value\<close> and \<^verbatim>\<open>node.Status[key] = value\<close>
  for the node at address \<open>p\<close>: the write goes to the map object the node refers to.\<close>

definition setAttr :: "Store \<Rightarrow> ptr \<Rightarrow> string \<Rightarrow> string \<Rightarrow> Store" where
  "setAttr h p key v =
     h\<lparr>attrMaps := (attrMaps h)(Attr (nodes h p) := (attrMaps h (Attr (nodes h p)))(key \<mapsto> v))\<rparr>"

definition setConfig :: "Store \<Rightarrow> ptr \<Rightarrow> string \<Rightarrow> ConfigAttr \<Rightarrow> Store" where
  "setConfig h p key v =
     h\<lparr>configMaps := (configMaps h)(Config (nodes h p) := (configMaps h (Config (nodes h p)))(key \<mapsto> v))\<rparr>"

definition setStatus :: "Store \<Rightarrow> ptr \<Rightarrow> string \<Rightarrow> string \<Rightarrow> Store" where
  "setStatus h p key v =
     h\<lparr>statusMaps := (statusMaps h)(Status (nodes h p) := (statusMaps h (Status (nodes h p)))(key \<mapsto> v))\<rparr>"

definition getAttr :: "Store \<Rightarrow> ptr \<Rightarrow> string \<Rightarrow> string option" where
  "getAttr h p key = attrMaps h (Attr (nodes h p)) key"

definition getConfig :: "Store \<Rightarrow> ptr \<Rightarrow> string \<Rightarrow> ConfigAttr option" where
  "getConfig h p key = configMaps h (Config (nodes h p)) key"

definition getStatus :: "Store \<Rightarrow> ptr \<Rightarrow> string \<Rightarrow> string option" where
  "getStatus h p key = statusMaps h (Status (nodes h p)) key"

section \<open>The registry's operations\<close>

text \<open>\<^verbatim>\<open>Clone\<close>: a copy of the node struct with newly made \<open>Attr\<close> and \<open>Status\<close> maps
  holding the entries of the old ones; \<^verbatim>\<open>newNode.Config = node.Config\<close> copies the
  reference, so both nodes refer to one \<open>Config\<close> map object.\<close>

definition Clone :: "Store \<Rightarrow> ptr \<Rightarrow> ptr \<times> Store" where
  "Clone h node =
     (let newNode = nodes h node;
          (a, h1) = allocAttr h (attrMaps h (Attr (nodes h node)));
          newNode = newNode\<lparr>Attr := a\<rparr>;
          newNode = newNode\<lparr>Config := Config (nodes h node)\<rparr>;
          (st, h2) = allocStatus h1 (statusMaps h1 (Status (nodes h1 node)));
          newNode = newNode\<lparr>Status := st\<rparr>
      in allocNode h2 newNode)"

definition GetNodeByHWID :: "RegisteredNodes \<Rightarrow> string \<Rightarrow> ptr option" where
  "GetNodeByHWID r nodeHWID = lookupPtr (deviceMap r) nodeHWID"

definition GetNodeByNodeID :: "RegisteredNodes \<Rightarrow> string \<Rightarrow> ptr option" where
  "GetNodeByNodeID r nodeID = lookupPtr (nodeMap r) nodeID"

text \<open>\<^verbatim>\<open>updateNode\<close>: registers the node under its nodeID and its hwID, stamps it with the
  current time and adds it to the updated nodes under its address.\<close>

definition updateNode :: "RegisteredNodes \<Rightarrow> Store \<Rightarrow> ptr option \<Rightarrow> RegisteredNodes \<times> Store" where
  "updateNode r h node =
     (case node of
        None \<Rightarrow> (r, h)
      | Some p \<Rightarrow>
          (let r1 = r\<lparr>nodeMap := (nodeMap r)(NodeID (nodes h p) \<mapsto> Some p)\<rparr>;
               r2 = r1\<lparr>deviceMap := (deviceMap r1)(HWID (nodes h p) \<mapsto> Some p)\<rparr>;
               r3 = (if updatedNodes r2 = None then r2\<lparr>updatedNodes := Some Map.empty\<rparr> else r2);
               (now, h1) = timeNow h;
               h2 = h1\<lparr>nodes := (nodes h1)(p := (nodes h1 p)\<lparr>Timestamp := now\<rparr>)\<rparr>;
               r4 = r3\<lparr>updatedNodes :=
                       map_option (\<lambda>u. u(Address (nodes h2 p) \<mapsto> Some p)) (updatedNodes r3)\<rparr>
           in (r4, h2)))"

definition MakeNodeAddress :: "string \<Rightarrow> string \<Rightarrow> string \<Rightarrow> string \<Rightarrow> string" where
  "MakeNodeAddress dmn pubID nodeID messageType =
     (let address = dmn @ ''/'' @ pubID @ ''/'' @ nodeID
      in if messageType \<noteq> '''' then address @ ''/'' @ messageType else address)"

definition MakeNodeDiscoveryAddress :: "Types \<Rightarrow> string \<Rightarrow> string \<Rightarrow> string \<Rightarrow> string" where
  "MakeNodeDiscoveryAddress c dmn pubID nodeID =
     MakeNodeAddress dmn pubID nodeID (MessageTypeNodeDiscovery c)"

definition NewNodeConfig :: "string \<Rightarrow> string \<Rightarrow> string \<Rightarrow> ConfigAttr" where
  "NewNodeConfig dataType description defaultValue =
     \<lparr>DataType = dataType, Description = description, Default = defaultValue\<rparr>"

definition NewNode :: "Types \<Rightarrow> Store \<Rightarrow> string \<Rightarrow> string \<Rightarrow> string \<Rightarrow> string \<Rightarrow> ptr option \<times> Store" where
  "NewNode c h dmn pubID nodeHWID nodeType =
     (if dmn = '''' \<or> pubID = '''' \<or> nodeHWID = '''' \<or> nodeType = '''' then (None, h)
      else
        (let address = MakeNodeAddress dmn pubID nodeHWID (MessageTypeNodeDiscovery c);
             (a, h1) = allocAttr h Map.empty;
             (cf, h2) = allocConfig h1 Map.empty;
             (st, h3) = allocStatus h2 Map.empty;
             (now, h4) = timeNow h3;
             (newNode, h5) = allocNode h4
                \<lparr>Address = address, Attr = a, Config = cf, HWID = nodeHWID, NodeID = nodeHWID,
                 PublisherID = pubID, Status = st, Timestamp = now\<rparr>;
             h6 = setAttr h5 newNode (NodeAttrType c) nodeType;
             h7 = setConfig h6 newNode (NodeAttrName c)
                    (NewNodeConfig (DataTypeString c) ''Human friendly node name'' '''');
             h8 = setConfig h7 newNode (NodeAttrPublishEvent c)
                    (NewNodeConfig (DataTypeString c) ''Enable publishing outputs as event'' ''false'');
             h9 = setConfig h8 newNode (NodeAttrPublishHistory c)
                    (NewNodeConfig (DataTypeBool c) ''Enable publishing output history'' ''true'');
             h10 = setConfig h9 newNode (NodeAttrPublishLatest c)
                    (NewNodeConfig (DataTypeBool c) ''Enable publishing latest output'' ''true'');
             h11 = setConfig h10 newNode (NodeAttrPublishRaw c)
                    (NewNodeConfig (DataTypeBool c) ''Enable publishing raw outputs'' ''true'')
         in (Some newNode, h11)))"

text \<open>\<^verbatim>\<open>CreateNode\<close>: the existing node of the hwID, or else a new node, registered.\<close>

definition CreateNode ::
  "Types \<Rightarrow> RegisteredNodes \<Rightarrow> Store \<Rightarrow> string \<Rightarrow> string \<Rightarrow> ptr option \<times> RegisteredNodes \<times> Store" where
  "CreateNode c r h hwID nodeType =
     (case GetNodeByHWID r hwID of
        Some existingNode \<Rightarrow> (Some existingNode, r, h)
      | None \<Rightarrow>
          (let (newNode, h1) = NewNode c h (domain r) (publisherID r) hwID nodeType;
               (r1, h2) = updateNode r h1 newNode
           in (newNode, r1, h2)))"

definition NewRegisteredNodes :: "string \<Rightarrow> string \<Rightarrow> RegisteredNodes" where
  "NewRegisteredNodes dmn pubID =
     \<lparr>domain = dmn, publisherID = pubID, deviceMap = Map.empty, nodeMap = Map.empty,
      updatedNodes = Some Map.empty\<rparr>"

text \<open>\<^verbatim>\<open>strings.Split(s, "/")\<close> and \<^verbatim>\<open>strings.Join(segments, "/")\<close> of Go's standard
  library, for the one-character separator the code uses. Splitting never returns an
  empty list: a string without the separator is returned as the only segment.\<close>

fun strings_Split :: "string \<Rightarrow> char \<Rightarrow> string list" where
  "strings_Split [] sep = [[]]"
| "strings_Split (x # xs) sep =
     (if x = sep then [] # strings_Split xs sep
      else (case strings_Split xs sep of
              [] \<Rightarrow> [[x]]
            | seg # segs \<Rightarrow> (x # seg) # segs))"

fun strings_Join :: "string list \<Rightarrow> string \<Rightarrow> string" where
  "strings_Join [] sep = []"
| "strings_Join [seg] sep = seg"
| "strings_Join (seg # seg' # segs) sep = seg @ sep @ strings_Join (seg' # segs) sep"

definition GetNodeByAddress :: "RegisteredNodes \<Rightarrow> string \<Rightarrow> ptr option" where
  "GetNodeByAddress r address =
     (let segments = strings_Split address CHR ''/''
      in if length segments < 3 then None else lookupPtr (nodeMap r) (segments ! 2))"

text \<open>The errors the code builds with \<^verbatim>\<open>errors.New\<close> and \<^verbatim>\<open>lib.MakeErrorf\<close>, one
  constructor for each message format, with the values the format is filled with.\<close>

datatype error =
    DeviceNotFound string
  | ConfigNotFound string string
  | NotABoolean string string
  | NotAFloat string string
  | NotAnInteger string string
  | NotEncrypted string
  | NotSigned string
  | DecodeFailed string string
  | UnknownNodeOrMissingMessage string
  | AddressIncomplete string
  | EarlierTimestamp string string
  | UpdateNotSigned string
  | FailedParsingPayload string
  | MissingIdentity string
  | InvalidDSSSignature string

text \<open>\<^verbatim>\<open>GetNodeConfigString\<close>: the attribute value, or the configuration default when no
  value or an empty one is stored, or the caller's default when that is empty too.\<close>

definition GetNodeConfigString ::
  "RegisteredNodes \<Rightarrow> Store \<Rightarrow> string \<Rightarrow> string \<Rightarrow> string \<Rightarrow> string \<times> error option" where
  "GetNodeConfigString r h nodeHWID attrName defaultValue =
     (case lookupPtr (deviceMap r) nodeHWID of
        None \<Rightarrow> (defaultValue, Some (DeviceNotFound nodeHWID))
      | Some node \<Rightarrow>
          (case getConfig h node attrName of
             None \<Rightarrow> (defaultValue, Some (ConfigNotFound nodeHWID attrName))
           | Some config \<Rightarrow>
               (let attrValue =
                      (case getAttr h node attrName of
                         None \<Rightarrow> Default config
                       | Some v \<Rightarrow> if v = '''' then Default config else v)
                in if attrValue = '''' then (defaultValue, None) else (attrValue, None))))"

text \<open>The typed getters. \<^verbatim>\<open>strconv.ParseBool\<close>, \<^verbatim>\<open>strconv.Atoi\<close> and
  \<^verbatim>\<open>strconv.ParseFloat\<close> belong to Go's standard library and are parameters: a parser
  returns \<open>None\<close> where the library function returns an error. The float32 values are
  kept abstract (type \<open>'f\<close>); the parameter of \<open>GetNodeConfigFloat\<close> stands for
  \<^verbatim>\<open>ParseFloat(valueStr, 32)\<close> followed by the conversion to float32.\<close>

definition GetNodeConfigBool ::
  "(string \<Rightarrow> bool option) \<Rightarrow> RegisteredNodes \<Rightarrow> Store \<Rightarrow> string \<Rightarrow> string \<Rightarrow> bool \<Rightarrow> bool \<times> error option" where
  "GetNodeConfigBool parseBool r h nodeHWID attrName defaultValue =
     (let (valueStr, err) = GetNodeConfigString r h nodeHWID attrName ''''
      in if err \<noteq> None then (defaultValue, err)
         else if valueStr = '''' then (defaultValue, None)
         else (case parseBool valueStr of
                 None \<Rightarrow> (defaultValue, Some (NotABoolean nodeHWID attrName))
               | Some v \<Rightarrow> (v, None)))"

definition GetNodeConfigFloat ::
  "(string \<Rightarrow> 'f option) \<Rightarrow> RegisteredNodes \<Rightarrow> Store \<Rightarrow> string \<Rightarrow> string \<Rightarrow> 'f \<Rightarrow> 'f \<times> error option" where
  "GetNodeConfigFloat parseFloat r h nodeHWID attrName defaultValue =
     (let (valueStr, err) = GetNodeConfigString r h nodeHWID attrName ''''
      in if err \<noteq> None then (defaultValue, err)
         else if valueStr = '''' then (defaultValue, None)
         else (case parseFloat valueStr of
                 None \<Rightarrow> (defaultValue, Some (NotAFloat nodeHWID attrName))
               | Some v \<Rightarrow> (v, None)))"

definition GetNodeConfigInt ::
  "(string \<Rightarrow> int option) \<Rightarrow> RegisteredNodes \<Rightarrow> Store \<Rightarrow> string \<Rightarrow> string \<Rightarrow> int \<Rightarrow> int \<times> error option" where
  "GetNodeConfigInt atoi r h nodeHWID attrName defaultValue =
     (let (valueStr, err) = GetNodeConfigString r h nodeHWID attrName ''''
      in if err \<noteq> None then (defaultValue, err)
         else if valueStr = '''' then (defaultValue, None)
         else (case atoi valueStr of
                 None \<Rightarrow> (defaultValue, Some (NotAnInteger nodeHWID attrName))
               | Some v \<Rightarrow> (v, None)))"

text \<open>\<^verbatim>\<open>SetNodeID\<close>. The first definition is the part of the function after the new
  nodeID has been chosen (from \<^verbatim>\<open>regNodes.updateMutex.Lock()\<close> on): the entry of the old
  nodeID is set to nil in \<open>nodeMap\<close> and in the updated nodes, the clone gets its new
  address and is registered.\<close>

definition SetNodeID_register ::
  "Types \<Rightarrow> RegisteredNodes \<Rightarrow> Store \<Rightarrow> ptr \<Rightarrow> ptr \<Rightarrow> bool \<times> RegisteredNodes \<times> Store" where
  "SetNodeID_register c r h node newNode =
     (let r1 = r\<lparr>nodeMap := (nodeMap r)(NodeID (nodes h node) \<mapsto> None)\<rparr>;
          r2 = (if updatedNodes r1 = None then r1\<lparr>updatedNodes := Some Map.empty\<rparr> else r1);
          r3 = r2\<lparr>updatedNodes :=
                  map_option (\<lambda>u. u(NodeID (nodes h node) \<mapsto> None)) (updatedNodes r2)\<rparr>;
          h1 = h\<lparr>nodes := (nodes h)(newNode := (nodes h newNode)
                  \<lparr>Address := MakeNodeDiscoveryAddress c (domain r3) (publisherID r3)
                                (NodeID (nodes h newNode))\<rparr>)\<rparr>;
          (r4, h2) = updateNode r3 h1 (Some newNode)
      in (True, r4, h2))"

definition SetNodeID ::
  "Types \<Rightarrow> RegisteredNodes \<Rightarrow> Store \<Rightarrow> ptr option \<Rightarrow> string \<Rightarrow> bool \<times> RegisteredNodes \<times> Store" where
  "SetNodeID c r h node newNodeID =
     (case node of
        None \<Rightarrow> (False, r, h)
      | Some p \<Rightarrow>
          (let (newNode, h1) = Clone h p
           in if newNodeID = '''' then
                SetNodeID_register c r
                  (h1\<lparr>nodes := (nodes h1)(newNode := (nodes h1 newNode)\<lparr>NodeID := HWID (nodes h1 p)\<rparr>)\<rparr>)
                  p newNode
              else
                (let existingNode = GetNodeByNodeID r newNodeID
                 in if existingNode \<noteq> None \<and> newNodeID \<noteq> HWID (nodes h1 p) then (False, r, h1)
                    else
                      SetNodeID_register c r
                        (h1\<lparr>nodes := (nodes h1)(newNode := (nodes h1 newNode)\<lparr>NodeID := newNodeID\<rparr>)\<rparr>)
                        p newNode)))"

text \<open>The update operations. A Go map that is passed in and ranged over is the list of its
  entries in the order of the iteration, which Go leaves open; its keys are distinct. A
  map argument that may be nil and is tested for it is an \<open>option\<close>. Reading
  \<^verbatim>\<open>m[key]\<close> from a map of strings gives the empty string for a missing key.\<close>

type_synonym NodeAttrMap = "(string \<times> string) list option"

definition attrValue :: "Store \<Rightarrow> ptr \<Rightarrow> string \<Rightarrow> string" where
  "attrValue h p key = (case getAttr h p key of None \<Rightarrow> '''' | Some v \<Rightarrow> v)"

definition statusValue :: "Store \<Rightarrow> ptr \<Rightarrow> string \<Rightarrow> string" where
  "statusValue h p key = (case getStatus h p key of None \<Rightarrow> '''' | Some v \<Rightarrow> v)"

definition CreateNodeConfig ::
  "RegisteredNodes \<Rightarrow> Store \<Rightarrow> string \<Rightarrow> string \<Rightarrow> string \<Rightarrow> string \<Rightarrow> string
     \<Rightarrow> ConfigAttr option \<times> RegisteredNodes \<times> Store" where
  "CreateNodeConfig r h hwID attrName dataType description defaultValue =
     (case GetNodeByHWID r hwID of
        None \<Rightarrow> (None, r, h)
      | Some node \<Rightarrow>
          (let config =
                 (case getConfig h node attrName of
                    None \<Rightarrow>
                      \<lparr>DataType = dataType, Description = description, Default = defaultValue\<rparr>
                  | Some config \<Rightarrow>
                      config\<lparr>DataType := dataType, Default := defaultValue,
                             Description := description\<rparr>);
               (newNode, h1) = Clone h node;
               h2 = setConfig h1 newNode attrName config;
               (r1, h3) = updateNode r h2 (Some newNode)
           in (Some config, r1, h3)))"

definition UpdateErrorStatus ::
  "Types \<Rightarrow> RegisteredNodes \<Rightarrow> Store \<Rightarrow> string \<Rightarrow> string \<Rightarrow> string
     \<Rightarrow> bool \<times> RegisteredNodes \<times> Store" where
  "UpdateErrorStatus c r h nodeHWID runState errorMsg =
     (case GetNodeByHWID r nodeHWID of
        None \<Rightarrow> (False, r, h)
      | Some node \<Rightarrow>
          (let (newNode, h1) = Clone h node;
               changed = False;
               (h2, changed) =
                 (if statusValue h1 node (NodeStatusLastError c) \<noteq> errorMsg
                  then (setStatus h1 newNode (NodeStatusLastError c) errorMsg, True)
                  else (h1, changed));
               (h3, changed) =
                 (if statusValue h2 node (NodeStatusRunState c) \<noteq> runState
                  then (setStatus h2 newNode (NodeStatusRunState c) runState, True)
                  else (h2, changed))
           in if changed
              then (let (r1, h4) = updateNode r h3 (Some newNode) in (changed, r1, h4))
              else (changed, r, h3)))"

fun UpdateNodeAttr_range ::
  "Store \<Rightarrow> ptr \<Rightarrow> (string \<times> string) list \<Rightarrow> bool \<Rightarrow> Store \<times> bool" where
  "UpdateNodeAttr_range h newNode [] changed = (h, changed)"
| "UpdateNodeAttr_range h newNode ((key, v) # attrParams) changed =
     (if attrValue h newNode key \<noteq> v
      then UpdateNodeAttr_range (setAttr h newNode key v) newNode attrParams True
      else UpdateNodeAttr_range h newNode attrParams changed)"

definition UpdateNodeAttr ::
  "RegisteredNodes \<Rightarrow> Store \<Rightarrow> string \<Rightarrow> (string \<times> string) list \<Rightarrow> bool \<times> RegisteredNodes \<times> Store" where
  "UpdateNodeAttr r h nodeHWID attrParams =
     (case GetNodeByHWID r nodeHWID of
        None \<Rightarrow> (False, r, h)
      | Some node \<Rightarrow>
          (let (newNode, h1) = Clone h node;
               (h2, changed) = UpdateNodeAttr_range h1 newNode attrParams False
           in if changed
              then (let (r1, h3) = updateNode r h2 (Some newNode) in (changed, r1, h3))
              else (changed, r, h2)))"

text \<open>The loop of \<^verbatim>\<open>UpdateNodeConfigValues\<close> reads the configuration and the old value
  from the node that was registered (\<open>node\<close>) and writes to the clone (\<open>newNode\<close>).\<close>

fun UpdateNodeConfigValues_range ::
  "Store \<Rightarrow> ptr \<Rightarrow> ptr \<Rightarrow> (string \<times> string) list \<Rightarrow> bool \<Rightarrow> Store \<times> bool" where
  "UpdateNodeConfigValues_range h node newNode [] changed = (h, changed)"
| "UpdateNodeConfigValues_range h node newNode ((key, newValue) # params) changed =
     (case getConfig h node key of
        None \<Rightarrow> UpdateNodeConfigValues_range h node newNode params changed
      | Some _ \<Rightarrow>
          (case getAttr h node key of
             None \<Rightarrow>
               UpdateNodeConfigValues_range (setAttr h newNode key newValue) node newNode params True
           | Some oldValue \<Rightarrow>
               if oldValue \<noteq> newValue
               then UpdateNodeConfigValues_range (setAttr h newNode key newValue) node newNode
                      params True
               else UpdateNodeConfigValues_range h node newNode params changed))"

definition UpdateNodeConfigValues ::
  "RegisteredNodes \<Rightarrow> Store \<Rightarrow> string \<Rightarrow> NodeAttrMap \<Rightarrow> bool \<times> RegisteredNodes \<times> Store" where
  "UpdateNodeConfigValues r h nodeHWID params =
     (case (GetNodeByHWID r nodeHWID, params) of
        (Some node, Some ps) \<Rightarrow>
          (let (newNode, h1) = Clone h node;
               (h2, changed) = UpdateNodeConfigValues_range h1 node newNode ps False
           in if changed
              then (let (r1, h3) = updateNode r h2 (Some newNode) in (changed, r1, h3))
              else (changed, r, h2))
      | _ \<Rightarrow> (False, r, h))"

definition UpdateNodeConfig ::
  "RegisteredNodes \<Rightarrow> Store \<Rightarrow> string \<Rightarrow> string \<Rightarrow> ConfigAttr option \<Rightarrow> RegisteredNodes \<times> Store" where
  "UpdateNodeConfig r h nodeHWID attrName configAttr =
     (case (GetNodeByHWID r nodeHWID, configAttr) of
        (Some node, Some config) \<Rightarrow>
          (if attrName = '''' then (r, h)
           else
             (let (newNode, h1) = Clone h node;
                  h2 = setConfig h1 newNode attrName config
              in updateNode r h2 (Some newNode)))
      | _ \<Rightarrow> (r, h))"

fun UpdateNodeStatus_range ::
  "Store \<Rightarrow> ptr \<Rightarrow> (string \<times> string) list \<Rightarrow> bool \<Rightarrow> Store \<times> bool" where
  "UpdateNodeStatus_range h newNode [] changed = (h, changed)"
| "UpdateNodeStatus_range h newNode ((key, v) # statusAttr) changed =
     (if statusValue h newNode key \<noteq> v
      then UpdateNodeStatus_range (setStatus h newNode key v) newNode statusAttr True
      else UpdateNodeStatus_range h newNode statusAttr changed)"

definition UpdateNodeStatus ::
  "RegisteredNodes \<Rightarrow> Store \<Rightarrow> string \<Rightarrow> (string \<times> string) list \<Rightarrow> bool \<times> RegisteredNodes \<times> Store" where
  "UpdateNodeStatus r h nodeHWID statusAttr =
     (case GetNodeByHWID r nodeHWID of
        None \<Rightarrow> (False, r, h)
      | Some node \<Rightarrow>
          (let (newNode, h1) = Clone h node;
               (h2, changed) = UpdateNodeStatus_range h1 newNode statusAttr False
           in if changed
              then (let (r1, h3) = updateNode r h2 (Some newNode) in (changed, r1, h3))
              else (changed, r, h2)))"

section \<open>Receiving configure commands\<close>

text \<open>\<^verbatim>\<open>src/nodes/ReceiveNodeConfigure.go\<close>. The message signer's \<^verbatim>\<open>DecodeMessage\<close>
  (decryption, signature verification and JSON decoding, package \<^verbatim>\<open>messaging\<close>) is a field
  of the receiver: it returns whether the message was signed, whether it was encrypted,
  the error if any, and the decoded command. The configure handler is an optional
  function that filters the requested attribute map.\<close>

record NodeConfigureMessage =
  ConfigureSender :: string
  ConfigureTimestamp :: string
  ConfigureAttr :: NodeAttrMap

record ReceiveNodeConfigure =
  nodeConfigureHandler :: "(string \<Rightarrow> NodeAttrMap \<Rightarrow> NodeAttrMap) option"
  DecodeConfigureMessage :: "string \<Rightarrow> bool \<times> bool \<times> string option \<times> NodeConfigureMessage"

definition receiveConfigureCommand ::
  "ReceiveNodeConfigure \<Rightarrow> RegisteredNodes \<Rightarrow> Store \<Rightarrow> string \<Rightarrow> string
     \<Rightarrow> error option \<times> RegisteredNodes \<times> Store" where
  "receiveConfigureCommand nc r h address message =
     (let (isSigned, isEncrypted, err, configureMessage) = DecodeConfigureMessage nc message
      in if \<not> isEncrypted then (Some (NotEncrypted address), r, h)
         else if \<not> isSigned then (Some (NotSigned address), r, h)
         else
           (case err of
              Some e \<Rightarrow> (Some (DecodeFailed address e), r, h)
            | None \<Rightarrow>
                (case GetNodeByAddress r address of
                   None \<Rightarrow> (Some (UnknownNodeOrMissingMessage address), r, h)
                 | Some node \<Rightarrow>
                     if message = '''' then (Some (UnknownNodeOrMissingMessage address), r, h)
                     else
                       (let params = ConfigureAttr configureMessage;
                            params =
                              (case nodeConfigureHandler nc of
                                 None \<Rightarrow> params
                               | Some handler \<Rightarrow> handler address params)
                        in if params \<noteq> None
                           then (let (changed, r1, h1) =
                                       UpdateNodeConfigValues r h (NodeID (nodes h node)) params
                                 in (None, r1, h1))
                           else (None, r, h)))))"

section \<open>Receiving set commands\<close>

text \<open>\<^verbatim>\<open>src/inputs/InputFromSetCommands.go\<close>. The set command carries its sender, its
  timestamp and the value. Timestamps are strings, compared as Go compares strings:
  byte by byte, a proper prefix being smaller (the order of \<open>string\<close> here).\<close>

record SetInputMessage =
  Sender :: string
  SetTimestamp :: string
  Value :: string

text \<open>Modelled from the spec: \<^verbatim>\<open>RegisteredInputs\<close> and its method \<^verbatim>\<open>NotifyInputHandler\<close>
  (package \<^verbatim>\<open>inputs\<close>) are missing from the sources. By the spec the input registry is
  keyed by the full input address and holds for each input a callback
  \<open>(address, sender, value)\<close> that is invoked when a set command targets the input. The
  callbacks belong to the application; what is kept of them is at which addresses one is
  registered, and the list of the invocations made so far.\<close>

record RegisteredInputs =
  handlers :: "string set"
  invoked :: "(string \<times> string \<times> string) list"

definition NotifyInputHandler ::
  "RegisteredInputs \<Rightarrow> string \<Rightarrow> string \<Rightarrow> string \<Rightarrow> RegisteredInputs" where
  "NotifyInputHandler ri inputAddress sender v =
     (if inputAddress \<in> handlers ri
      then ri\<lparr>invoked := invoked ri @ [(inputAddress, sender, v)]\<rparr>
      else ri)"

record InputFromSetCommands =
  senderTimestamp :: "string \<rightharpoonup> string"
  registeredInputs :: RegisteredInputs
  DecodeSetMessage :: "string \<Rightarrow> bool \<times> bool \<times> string option \<times> SetInputMessage"

definition decodeSetCommand ::
  "Types \<Rightarrow> InputFromSetCommands \<Rightarrow> string \<Rightarrow> string \<Rightarrow> error option \<times> InputFromSetCommands" where
  "decodeSetCommand c ifset address message =
     (let segments = strings_Split address CHR ''/''
      in if length segments < 6 then (Some (AddressIncomplete address), ifset)
         else
           (let segments = segments[5 := MessageTypeInputDiscovery c];
                inputAddr = strings_Join segments ''/'';
                (isSigned, isEncrypted, err, setMessage) = DecodeSetMessage ifset message
            in if \<not> isEncrypted then (Some (NotEncrypted address), ifset)
               else if \<not> isSigned then (Some (NotSigned address), ifset)
               else
                 (case err of
                    Some e \<Rightarrow> (Some (DecodeFailed address e), ifset)
                  | None \<Rightarrow>
                      (let prevTimestamp =
                             (case senderTimestamp ifset (Sender setMessage) of
                                None \<Rightarrow> ''''
                              | Some t \<Rightarrow> t)
                       in if prevTimestamp > SetTimestamp setMessage
                          then (Some (EarlierTimestamp address (Sender setMessage)), ifset)
                          else
                            (let ifset1 = ifset\<lparr>senderTimestamp :=
                                   (senderTimestamp ifset)(Sender setMessage \<mapsto> SetTimestamp setMessage)\<rparr>;
                                 ifset2 = ifset1\<lparr>registeredInputs :=
                                   NotifyInputHandler (registeredInputs ifset1) inputAddr
                                     (Sender setMessage) (Value setMessage)\<rparr>
                             in (None, ifset2))))))"

section \<open>Discovery of publisher identities\<close>










section \<open>Concrete values for evaluation\<close>

text \<open>A value for the constants of package \<^verbatim>\<open>types\<close>, and an empty store whose first
  free address is 100 and whose clock shows one time, used where a statement is evaluated
  on a concrete registry. The message types are the ones the comments of the code name
  (\<^verbatim>\<open>$node\<close>, \<^verbatim>\<open>$input\<close>).\<close>

definition stdTypes :: Types where
  "stdTypes =
     \<lparr>MessageTypeNodeDiscovery = ''$node'', MessageTypeInputDiscovery = ''$input'',
      NodeAttrType = ''type'', NodeAttrName = ''name'',
      NodeAttrPublishEvent = ''publishEvent'', NodeAttrPublishHistory = ''publishHistory'',
      NodeAttrPublishLatest = ''publishLatest'', NodeAttrPublishRaw = ''publishRaw'',
      DataTypeString = ''string'', DataTypeBool = ''boolean'',
      NodeStatusLastError = ''lastError'', NodeStatusRunState = ''runState'',
      DSSPublisherID = ''$dss''\<rparr>"

definition zeroNode :: NodeDiscoveryMessage where
  "zeroNode =
     \<lparr>Address = '''', Attr = 0, Config = 0, HWID = '''', NodeID = '''', PublisherID = '''',
      Status = 0, Timestamp = ''''\<rparr>"

definition emptyStore :: Store where
  "emptyStore =
     \<lparr>nodes = (\<lambda>_. zeroNode), attrMaps = (\<lambda>_. Map.empty), configMaps = (\<lambda>_. Map.empty),
      statusMaps = (\<lambda>_. Map.empty), nextPtr = 100, clock = (\<lambda>_. ''2020-06-01T12:00:00.000-0700''), ticks = 0\<rparr>"

text \<open>The parser \<^verbatim>\<open>strconv.Atoi\<close> of Go's standard library for a 64-bit \<^verbatim>\<open>int\<close>, to
  instantiate the parameter of \<open>GetNodeConfigInt\<close>: an optional sign, then decimal digits
  only, at least one, and a value from \<open>-2^63\<close> to \<open>2^63 - 1\<close>.\<close>

fun digits_value :: "string \<Rightarrow> nat \<Rightarrow> nat option" where
  "digits_value [] acc = Some acc"
| "digits_value (c # cs) acc =
     (if CHR ''0'' \<le> c \<and> c \<le> CHR ''9''
      then digits_value cs (10 * acc + (of_char c - 48))
      else None)"

definition strconv_Atoi :: "string \<Rightarrow> int option" where
  "strconv_Atoi s =
     (case s of
        [] \<Rightarrow> None
      | c # cs \<Rightarrow>
          (let (neg, ds) = (if c = CHR ''-'' then (True, cs)
                            else if c = CHR ''+'' then (False, cs)
                            else (False, s))
           in if ds = [] then None
              else (case digits_value ds 0 of
                      None \<Rightarrow> None
                    | Some n \<Rightarrow>
                        (let v = (if neg then - int n else int n)
                         in if v < - (2 ^ 63) \<or> 2 ^ 63 - 1 < v then None else Some v))))"

text \<open>The registry and the store after \<^verbatim>\<open>CreateNode("hw1", "sensor")\<close> on the new
  registry of publisher \<^verbatim>\<open>pub1\<close> in domain \<^verbatim>\<open>home\<close> (lemma \<open>created1\<close> below): the node
  is at address 103, its maps at 100 to 102; \<open>defaultConfig\<close> is the configuration that
  \<^verbatim>\<open>NewNode\<close> gives a node.\<close>

definition registry0 :: RegisteredNodes where
  "registry0 = NewRegisteredNodes ''home'' ''pub1''"

definition defaultConfig :: "string \<rightharpoonup> ConfigAttr" where
  "defaultConfig =
     [''name'' \<mapsto>
        \<lparr>DataType = ''string'', Description = ''Human friendly node name'', Default = ''''\<rparr>,
      ''publishEvent'' \<mapsto>
        \<lparr>DataType = ''string'', Description = ''Enable publishing outputs as event'',
         Default = ''false''\<rparr>,
      ''publishHistory'' \<mapsto>
        \<lparr>DataType = ''boolean'', Description = ''Enable publishing output history'',
         Default = ''true''\<rparr>,
      ''publishLatest'' \<mapsto>
        \<lparr>DataType = ''boolean'', Description = ''Enable publishing latest output'',
         Default = ''true''\<rparr>,
      ''publishRaw'' \<mapsto>
        \<lparr>DataType = ''boolean'', Description = ''Enable publishing raw outputs'',
         Default = ''true''\<rparr>]"

definition registry1 :: RegisteredNodes where
  "registry1 =
     \<lparr>domain = ''home'', publisherID = ''pub1'',
      deviceMap = [''hw1'' \<mapsto> Some 103], nodeMap = [''hw1'' \<mapsto> Some 103],
      updatedNodes = Some [''home/pub1/hw1/$node'' \<mapsto> Some 103]\<rparr>"

definition store1 :: Store where
  "store1 =
     \<lparr>nodes = (\<lambda>_. zeroNode)
        (103 :=
           \<lparr>Address = ''home/pub1/hw1/$node'', Attr = 100, Config = 101,
            HWID = ''hw1'', NodeID = ''hw1'', PublisherID = ''pub1'',
            Status = 102, Timestamp = ''2020-06-01T12:00:00.000-0700''\<rparr>),
      attrMaps = (\<lambda>_. Map.empty)(100 := [''type'' \<mapsto> ''sensor'']),
      configMaps = (\<lambda>_. Map.empty)(101 := defaultConfig),
      statusMaps = (\<lambda>_. Map.empty)(102 := Map.empty),
      nextPtr = 104,
      clock = (\<lambda>_. ''2020-06-01T12:00:00.000-0700''),
      ticks = 2\<rparr>"

text \<open>After \<^verbatim>\<open>SetNodeID(node, "kitchen")\<close> for that node (lemma \<open>renamed2\<close> below): the
  clone at address 106 is registered under the nodeID \<^verbatim>\<open>kitchen\<close> and the hwID \<^verbatim>\<open>hw1\<close>.\<close>

definition registry2 :: RegisteredNodes where
  "registry2 =
     \<lparr>domain = ''home'', publisherID = ''pub1'',
      deviceMap = [''hw1'' \<mapsto> Some 106],
      nodeMap = [''hw1'' \<mapsto> None, ''kitchen'' \<mapsto> Some 106],
      updatedNodes =
        Some [''home/pub1/hw1/$node'' \<mapsto> Some 103, ''hw1'' \<mapsto> None,
              ''home/pub1/kitchen/$node'' \<mapsto> Some 106]\<rparr>"

definition store2 :: Store where
  "store2 =
     store1
       \<lparr>nodes := (nodes store1)
          (106 :=
             \<lparr>Address = ''home/pub1/kitchen/$node'', Attr = 104, Config = 101,
              HWID = ''hw1'', NodeID = ''kitchen'', PublisherID = ''pub1'',
              Status = 105, Timestamp = ''2020-06-01T12:00:00.000-0700''\<rparr>),
        attrMaps := (attrMaps store1)(104 := [''type'' \<mapsto> ''sensor'']),
        statusMaps := (statusMaps store1)(105 := Map.empty),
        nextPtr := 107,
        ticks := 3\<rparr>"

text \<open>After \<^verbatim>\<open>CreateNode("hw2", "switch")\<close> (lemma \<open>created3\<close> below): the second node is
  at address 110.\<close>

definition registry3 :: RegisteredNodes where
  "registry3 =
     \<lparr>domain = ''home'', publisherID = ''pub1'',
      deviceMap = [''hw1'' \<mapsto> Some 106, ''hw2'' \<mapsto> Some 110],
      nodeMap = [''hw1'' \<mapsto> None, ''kitchen'' \<mapsto> Some 106, ''hw2'' \<mapsto> Some 110],
      updatedNodes =
        Some [''home/pub1/hw1/$node'' \<mapsto> Some 103, ''hw1'' \<mapsto> None,
              ''home/pub1/kitchen/$node'' \<mapsto> Some 106,
              ''home/pub1/hw2/$node'' \<mapsto> Some 110]\<rparr>"

definition store3 :: Store where
  "store3 =
     store2
       \<lparr>nodes := (nodes store2)
          (110 :=
             \<lparr>Address = ''home/pub1/hw2/$node'', Attr = 107, Config = 108,
              HWID = ''hw2'', NodeID = ''hw2'', PublisherID = ''pub1'',
              Status = 109, Timestamp = ''2020-06-01T12:00:00.000-0700''\<rparr>),
        attrMaps := (attrMaps store2)(107 := [''type'' \<mapsto> ''switch'']),
        configMaps := (configMaps store2)(108 := defaultConfig),
        statusMaps := (statusMaps store2)(109 := Map.empty),
        nextPtr := 111,
        ticks := 5\<rparr>"

text \<open>After \<^verbatim>\<open>SetNodeID(node, "hw1")\<close> for the second node (lemma \<open>renamed4\<close> below): its
  clone at address 113 is registered under the nodeID \<^verbatim>\<open>hw1\<close>, which is free since the
  first node was renamed, and which is the hwID of the first node.\<close>

definition registry4 :: RegisteredNodes where
  "registry4 =
     \<lparr>domain = ''home'', publisherID = ''pub1'',
      deviceMap = [''hw1'' \<mapsto> Some 106, ''hw2'' \<mapsto> Some 113],
      nodeMap = [''kitchen'' \<mapsto> Some 106, ''hw2'' \<mapsto> None, ''hw1'' \<mapsto> Some 113],
      updatedNodes =
        Some [''hw1'' \<mapsto> None, ''home/pub1/kitchen/$node'' \<mapsto> Some 106,
              ''home/pub1/hw2/$node'' \<mapsto> Some 110, ''hw2'' \<mapsto> None,
              ''home/pub1/hw1/$node'' \<mapsto> Some 113]\<rparr>"

definition store4 :: Store where
  "store4 =
     store3
       \<lparr>nodes := (nodes store3)
          (113 :=
             \<lparr>Address = ''home/pub1/hw1/$node'', Attr = 111, Config = 108,
              HWID = ''hw2'', NodeID = ''hw1'', PublisherID = ''pub1'',
              Status = 112, Timestamp = ''2020-06-01T12:00:00.000-0700''\<rparr>),
        attrMaps := (attrMaps store3)(111 := [''type'' \<mapsto> ''switch'']),
        statusMaps := (statusMaps store3)(112 := Map.empty),
        nextPtr := 114,
        ticks := 6\<rparr>"

text \<open>From the registry with the one node of \<^verbatim>\<open>hw1\<close>: the state after
  \<^verbatim>\<open>UpdateNodeConfig("hw1", "interval", &intervalConfig)\<close> (lemma \<open>configured5\<close> below), and
  then after \<^verbatim>\<open>UpdateNodeConfigValues("hw1", {"interval": "42", "bogus": "1"})\<close> (lemma
  \<open>configured6\<close>). The clone at 106 shares the \<open>Config\<close> map at 101 with the node at 103.\<close>

definition intervalConfig :: ConfigAttr where
  "intervalConfig = \<lparr>DataType = ''int'', Description = ''Poll interval'', Default = ''10''\<rparr>"

definition registry5 :: RegisteredNodes where
  "registry5 =
     \<lparr>domain = ''home'', publisherID = ''pub1'',
      deviceMap = [''hw1'' \<mapsto> Some 106], nodeMap = [''hw1'' \<mapsto> Some 106],
      updatedNodes = Some [''home/pub1/hw1/$node'' \<mapsto> Some 106]\<rparr>"

definition store5 :: Store where
  "store5 =
     store1
       \<lparr>nodes := (nodes store1)
          (106 :=
             \<lparr>Address = ''home/pub1/hw1/$node'', Attr = 104, Config = 101,
              HWID = ''hw1'', NodeID = ''hw1'', PublisherID = ''pub1'',
              Status = 105, Timestamp = ''2020-06-01T12:00:00.000-0700''\<rparr>),
        attrMaps := (attrMaps store1)(104 := [''type'' \<mapsto> ''sensor'']),
        configMaps := (configMaps store1)(101 := defaultConfig(''interval'' \<mapsto> intervalConfig)),
        statusMaps := (statusMaps store1)(105 := Map.empty),
        nextPtr := 107,
        ticks := 3\<rparr>"

definition registry6 :: RegisteredNodes where
  "registry6 =
     \<lparr>domain = ''home'', publisherID = ''pub1'',
      deviceMap = [''hw1'' \<mapsto> Some 109], nodeMap = [''hw1'' \<mapsto> Some 109],
      updatedNodes = Some [''home/pub1/hw1/$node'' \<mapsto> Some 109]\<rparr>"

definition store6 :: Store where
  "store6 =
     store5
       \<lparr>nodes := (nodes store5)
          (109 :=
             \<lparr>Address = ''home/pub1/hw1/$node'', Attr = 107, Config = 101,
              HWID = ''hw1'', NodeID = ''hw1'', PublisherID = ''pub1'',
              Status = 108, Timestamp = ''2020-06-01T12:00:00.000-0700''\<rparr>),
        attrMaps := (attrMaps store5)(107 := [''type'' \<mapsto> ''sensor'', ''interval'' \<mapsto> ''42'']),
        statusMaps := (statusMaps store5)(108 := Map.empty),
        nextPtr := 110,
        ticks := 4\<rparr>"

text \<open>A receiver of configure commands without a handler. Its decoder stands for four
  deliveries: a signed and encrypted command that sets the name, a command that is signed
  only, one that is encrypted only, and one whose decoding fails.\<close>

definition configureName :: NodeConfigureMessage where
  "configureName =
     \<lparr>ConfigureSender = ''home/admin'', ConfigureTimestamp = ''2020-06-01T12:05:00.000-0700'',
      ConfigureAttr = Some [(''name'', ''Kitchen'')]\<rparr>"

definition receiver1 :: ReceiveNodeConfigure where
  "receiver1 =
     \<lparr>nodeConfigureHandler = None,
      DecodeConfigureMessage =
        (\<lambda>message.
           if message = ''signed+encrypted'' then (True, True, None, configureName)
           else if message = ''signed'' then (True, False, None, configureName)
           else if message = ''encrypted'' then (False, True, None, configureName)
           else (True, True, Some ''unexpected end of JSON input'', configureName))\<rparr>"

text \<open>A receiver of set commands with one input registered, and its states after one and
  after two deliveries of the same set command (lemma \<open>delivered\<close> below).\<close>

definition setOn :: SetInputMessage where
  "setOn = \<lparr>Sender = ''home/admin'', SetTimestamp = ''2020-06-01T12:05:00.000-0700'', Value = ''on''\<rparr>"

definition ifset0 :: InputFromSetCommands where
  "ifset0 =
     \<lparr>senderTimestamp = Map.empty,
      registeredInputs = \<lparr>handlers = {''home/pub1/kitchen/switch/0/$input''}, invoked = []\<rparr>,
      DecodeSetMessage = (\<lambda>message. (True, True, None, setOn))\<rparr>"

definition ifset1 :: InputFromSetCommands where
  "ifset1 =
     ifset0
       \<lparr>senderTimestamp := [''home/admin'' \<mapsto> ''2020-06-01T12:05:00.000-0700''],
        registeredInputs :=
          \<lparr>handlers = {''home/pub1/kitchen/switch/0/$input''},
           invoked = [(''home/pub1/kitchen/switch/0/$input'', ''home/admin'', ''on'')]\<rparr>\<rparr>"

definition ifset2 :: InputFromSetCommands where
  "ifset2 =
     ifset1
       \<lparr>registeredInputs :=
          \<lparr>handlers = {''home/pub1/kitchen/switch/0/$input''},
           invoked = [(''home/pub1/kitchen/switch/0/$input'', ''home/admin'', ''on''),
                      (''home/pub1/kitchen/switch/0/$input'', ''home/admin'', ''on'')]\<rparr>\<rparr>"








section \<open>Evaluation of the concrete registries\<close>

lemmas store_defs =
  timeNow_def allocAttr_def allocConfig_def allocStatus_def allocNode_def
  setAttr_def setConfig_def setStatus_def getAttr_def getConfig_def getStatus_def
  attrValue_def statusValue_def Clone_def

lemmas registry_defs =
  lookupPtr_def GetNodeByHWID_def GetNodeByNodeID_def GetNodeByAddress_def updateNode_def
  MakeNodeAddress_def MakeNodeDiscoveryAddress_def NewNodeConfig_def NewNode_def CreateNode_def
  NewRegisteredNodes_def SetNodeID_register_def SetNodeID_def

lemmas concrete_defs =
  stdTypes_def zeroNode_def emptyStore_def defaultConfig_def registry0_def
  registry1_def store1_def registry2_def store2_def registry3_def store3_def
  registry4_def store4_def intervalConfig_def registry5_def store5_def registry6_def store6_def

lemma created1:
  "CreateNode stdTypes registry0 emptyStore ''hw1'' ''sensor'' = (Some 103, registry1, store1)"
  by (simp add: registry_defs store_defs concrete_defs Let_def)

lemma renamed2:
  "SetNodeID stdTypes registry1 store1 (Some 103) ''kitchen'' = (True, registry2, store2)"
  by (simp add: registry_defs store_defs concrete_defs Let_def)



lemma configured5:
  "UpdateNodeConfig registry1 store1 ''hw1'' ''interval'' (Some intervalConfig) = (registry5, store5)"
  by (simp add: registry_defs store_defs concrete_defs UpdateNodeConfig_def Let_def)

lemma configured5_create:
  "CreateNodeConfig registry1 store1 ''hw1'' ''interval'' ''int'' ''Poll interval'' ''10''
     = (Some intervalConfig, registry5, store5)"
  by (simp add: registry_defs store_defs concrete_defs CreateNodeConfig_def Let_def)

lemma configured6:
  "UpdateNodeConfigValues registry5 store5 ''hw1'' (Some [(''interval'', ''42''), (''bogus'', ''1'')])
     = (True, registry6, store6)"
  by (simp add: registry_defs store_defs concrete_defs UpdateNodeConfigValues_def Let_def)

section \<open>Creating nodes\<close>

text \<open>
  Claim C9. \<^verbatim>\<open>CreateNode(hwID, nodeType)\<close> is idempotent: when the hwID is already
  registered, the call returns the registered node, and neither the registry (its
  \<open>deviceMap\<close>, \<open>nodeMap\<close> and updated nodes) nor the store (the node itself, the clock)
  changes: nothing is added and the node is not marked as updated.
\<close>

theorem CreateNode_idempotent:
  "GetNodeByHWID r hwID = Some p \<Longrightarrow> CreateNode c r h hwID nodeType = (Some p, r, h)"
  by (simp add: CreateNode_def)

text \<open>The witness: the first call registers the node at address 103, the second call
  returns it and leaves registry and store as the first call left them.\<close>

theorem CreateNode_idempotent_witness:
  "CreateNode stdTypes registry0 emptyStore ''hw1'' ''sensor'' = (Some 103, registry1, store1) \<and>
   GetNodeByHWID registry1 ''hw1'' = Some 103 \<and>
   CreateNode stdTypes registry1 store1 ''hw1'' ''sensor'' = (Some 103, registry1, store1)"
proof -
  have reg: "GetNodeByHWID registry1 ''hw1'' = Some 103"
    by (simp add: GetNodeByHWID_def lookupPtr_def registry1_def)
  show ?thesis
    using created1 reg CreateNode_idempotent [OF reg, of stdTypes store1 "''sensor''"] by simp
qed

text \<open>
  Claim C10. \<^verbatim>\<open>CreateNode\<close> with an empty hwID or an empty node type, on a registry that
  has no node of that hwID, returns nil and changes neither the registry nor the store.
\<close>

theorem CreateNode_empty_argument:
  "GetNodeByHWID r hwID = None \<Longrightarrow> hwID = '''' \<or> nodeType = '''' \<Longrightarrow>
   CreateNode c r h hwID nodeType = (None, r, h)"
  by (auto simp: CreateNode_def NewNode_def updateNode_def)

theorem CreateNode_empty_argument_witness:
  "CreateNode stdTypes registry0 emptyStore ''hw1'' '''' = (None, registry0, emptyStore) \<and>
   CreateNode stdTypes registry1 store1 '''' ''sensor'' = (None, registry1, store1)"
proof -
  have absent0: "GetNodeByHWID registry0 ''hw1'' = None"
    by (simp add: GetNodeByHWID_def lookupPtr_def NewRegisteredNodes_def registry0_def)
  have absent1: "GetNodeByHWID registry1 '''' = None"
    by (simp add: GetNodeByHWID_def lookupPtr_def registry1_def)
  show ?thesis
    using CreateNode_empty_argument [OF absent0, of "''''" stdTypes emptyStore]
      CreateNode_empty_argument [OF absent1, of "''sensor''" stdTypes store1]
    by simp
qed

section \<open>Renaming a node\<close>





section \<open>Reading configuration values\<close>

lemma GetNodeConfigString_cases:
  "GetNodeConfigString r h hw a d =
     (case GetNodeByHWID r hw of
        None \<Rightarrow> (d, Some (DeviceNotFound hw))
      | Some p \<Rightarrow>
          (case getConfig h p a of
             None \<Rightarrow> (d, Some (ConfigNotFound hw a))
           | Some cfg \<Rightarrow>
               (if attrValue h p a \<noteq> '''' then attrValue h p a
                else if Default cfg \<noteq> '''' then Default cfg else d, None)))"
  by (simp add: GetNodeConfigString_def GetNodeByHWID_def attrValue_def Let_def
           split: option.splits)

text \<open>
  Claim C8. The four getters \<^verbatim>\<open>GetNodeConfigString/Bool/Int/Float\<close>, for the hwID \<open>hw\<close>, the
  attribute \<open>a\<close> and the caller's defaults \<open>ds\<close>, \<open>db\<close>, \<open>di\<close>, \<open>df\<close>:
  \<^item> when no node is registered for \<open>hw\<close>, each returns the caller's default with the
    error that the device is not found;
  \<^item> when the node has no configuration named \<open>a\<close>, each returns the caller's default
    with the error that the configuration does not exist;
  \<^item> otherwise the value \<open>v\<close> is the node's attribute value if it is not empty, else the
    configuration default. The string getter returns \<open>v\<close>, or the caller's default when
    \<open>v\<close> is empty, without error. A typed getter returns the caller's default without
    error when \<open>v\<close> is empty, the parsed value when \<open>v\<close> parses, and the caller's default
    with a parse error when it does not;
  \<^item> whenever a getter returns an error, the value it returns is the caller's default.
\<close>

theorem GetNodeConfig_precedence:
  "(GetNodeByHWID r hw = None \<longrightarrow>
      GetNodeConfigString r h hw a ds = (ds, Some (DeviceNotFound hw)) \<and>
      GetNodeConfigBool parseBool r h hw a db = (db, Some (DeviceNotFound hw)) \<and>
      GetNodeConfigInt atoi r h hw a di = (di, Some (DeviceNotFound hw)) \<and>
      GetNodeConfigFloat parseFloat r h hw a df = (df, Some (DeviceNotFound hw))) \<and>
   (GetNodeByHWID r hw = Some p \<and> getConfig h p a = None \<longrightarrow>
      GetNodeConfigString r h hw a ds = (ds, Some (ConfigNotFound hw a)) \<and>
      GetNodeConfigBool parseBool r h hw a db = (db, Some (ConfigNotFound hw a)) \<and>
      GetNodeConfigInt atoi r h hw a di = (di, Some (ConfigNotFound hw a)) \<and>
      GetNodeConfigFloat parseFloat r h hw a df = (df, Some (ConfigNotFound hw a))) \<and>
   (GetNodeByHWID r hw = Some p \<and> getConfig h p a = Some cfg \<and>
    v = (if attrValue h p a \<noteq> '''' then attrValue h p a else Default cfg) \<longrightarrow>
      GetNodeConfigString r h hw a ds = (if v \<noteq> '''' then v else ds, None) \<and>
      GetNodeConfigBool parseBool r h hw a db =
        (if v = '''' then (db, None)
         else case parseBool v of
                None \<Rightarrow> (db, Some (NotABoolean hw a))
              | Some x \<Rightarrow> (x, None)) \<and>
      GetNodeConfigInt atoi r h hw a di =
        (if v = '''' then (di, None)
         else case atoi v of
                None \<Rightarrow> (di, Some (NotAnInteger hw a))
              | Some x \<Rightarrow> (x, None)) \<and>
      GetNodeConfigFloat parseFloat r h hw a df =
        (if v = '''' then (df, None)
         else case parseFloat v of
                None \<Rightarrow> (df, Some (NotAFloat hw a))
              | Some x \<Rightarrow> (x, None))) \<and>
   (snd (GetNodeConfigString r h hw a ds) \<noteq> None \<longrightarrow>
      fst (GetNodeConfigString r h hw a ds) = ds) \<and>
   (snd (GetNodeConfigBool parseBool r h hw a db) \<noteq> None \<longrightarrow>
      fst (GetNodeConfigBool parseBool r h hw a db) = db) \<and>
   (snd (GetNodeConfigInt atoi r h hw a di) \<noteq> None \<longrightarrow>
      fst (GetNodeConfigInt atoi r h hw a di) = di) \<and>
   (snd (GetNodeConfigFloat parseFloat r h hw a df) \<noteq> None \<longrightarrow>
      fst (GetNodeConfigFloat parseFloat r h hw a df) = df)"
  by (auto simp: GetNodeConfigString_cases GetNodeConfigBool_def GetNodeConfigInt_def
        GetNodeConfigFloat_def Let_def split: option.splits if_splits)

text \<open>The witness, with \<^verbatim>\<open>strconv.Atoi\<close> for the integers: the configuration \<^verbatim>\<open>interval\<close>
  with the default \<^verbatim>\<open>10\<close> reads as 10 while no attribute is stored and as 42 once
  \<^verbatim>\<open>UpdateNodeConfigValues\<close> has stored \<^verbatim>\<open>42\<close>; the empty name reads as the caller's
  default; \<^verbatim>\<open>publishRaw\<close>, whose default is \<^verbatim>\<open>true\<close>, is not an integer; there is no
  configuration \<^verbatim>\<open>bogus\<close> and no device \<^verbatim>\<open>hw7\<close>.\<close>

theorem GetNodeConfig_precedence_witness:
  "UpdateNodeConfig registry1 store1 ''hw1'' ''interval'' (Some intervalConfig)
     = (registry5, store5) \<and>
   GetNodeConfigInt strconv_Atoi registry5 store5 ''hw1'' ''interval'' 99 = (10, None) \<and>
   UpdateNodeConfigValues registry5 store5 ''hw1'' (Some [(''interval'', ''42''), (''bogus'', ''1'')])
     = (True, registry6, store6) \<and>
   GetNodeConfigInt strconv_Atoi registry6 store6 ''hw1'' ''interval'' 99 = (42, None) \<and>
   GetNodeConfigString registry6 store6 ''hw1'' ''name'' ''unnamed'' = (''unnamed'', None) \<and>
   GetNodeConfigInt strconv_Atoi registry6 store6 ''hw1'' ''publishRaw'' 99
     = (99, Some (NotAnInteger ''hw1'' ''publishRaw'')) \<and>
   GetNodeConfigString registry6 store6 ''hw1'' ''bogus'' ''none''
     = (''none'', Some (ConfigNotFound ''hw1'' ''bogus'')) \<and>
   GetNodeConfigString registry6 store6 ''hw7'' ''interval'' ''none''
     = (''none'', Some (DeviceNotFound ''hw7''))"
proof -
  note spec = GetNodeConfig_precedence [where parseBool = "\<lambda>_. None" and db = False
      and parseFloat = "\<lambda>_. None :: unit option" and df = "()" and atoi = strconv_Atoi
      and di = 99]
  have reg5: "GetNodeByHWID registry5 ''hw1'' = Some 106"
    by (simp add: GetNodeByHWID_def lookupPtr_def registry5_def)
  have reg6: "GetNodeByHWID registry6 ''hw1'' = Some 109" "GetNodeByHWID registry6 ''hw7'' = None"
    by (simp_all add: GetNodeByHWID_def lookupPtr_def registry6_def)
  have cfg5: "getConfig store5 106 ''interval'' = Some intervalConfig"
    by (simp add: getConfig_def store5_def store1_def)
  have cfg6: "getConfig store6 109 ''interval'' = Some intervalConfig"
    "getConfig store6 109 ''name''
       = Some \<lparr>DataType = ''string'', Description = ''Human friendly node name'', Default = ''''\<rparr>"
    "getConfig store6 109 ''publishRaw''
       = Some \<lparr>DataType = ''boolean'', Description = ''Enable publishing raw outputs'',
                Default = ''true''\<rparr>"
    "getConfig store6 109 ''bogus'' = None"
    by (simp_all add: getConfig_def store6_def store5_def store1_def defaultConfig_def)
  have attr5: "attrValue store5 106 ''interval'' = ''''"
    by (simp add: attrValue_def getAttr_def store5_def store1_def)
  have attr6: "attrValue store6 109 ''interval'' = ''42''" "attrValue store6 109 ''name'' = ''''"
    "attrValue store6 109 ''publishRaw'' = ''''"
    by (simp_all add: attrValue_def getAttr_def store6_def store5_def store1_def)
  have default: "GetNodeConfigInt strconv_Atoi registry5 store5 ''hw1'' ''interval'' 99 = (10, None)"
    using spec [where r = registry5 and h = store5 and hw = "''hw1''"
        and p = 106 and a = "''interval''" and cfg = intervalConfig and v = "''10''"
        and ds = "''''"] reg5 cfg5 attr5
    by (simp add: intervalConfig_def strconv_Atoi_def)
  have stored: "GetNodeConfigInt strconv_Atoi registry6 store6 ''hw1'' ''interval'' 99 = (42, None)"
    using spec [where r = registry6 and h = store6 and hw = "''hw1''"
        and p = 109 and a = "''interval''" and cfg = intervalConfig and v = "''42''"
        and ds = "''''"] reg6 cfg6 attr6
    by (simp add: intervalConfig_def strconv_Atoi_def)
  have caller: "GetNodeConfigString registry6 store6 ''hw1'' ''name'' ''unnamed'' = (''unnamed'', None)"
    using spec [where r = registry6 and h = store6 and hw = "''hw1''"
        and p = 109 and a = "''name''" and v = "''''" and ds = "''unnamed''"
        and cfg = "\<lparr>DataType = ''string'', Description = ''Human friendly node name'',
                    Default = ''''\<rparr>"] reg6 cfg6 attr6
    by simp
  have unparsable: "GetNodeConfigInt strconv_Atoi registry6 store6 ''hw1'' ''publishRaw'' 99
     = (99, Some (NotAnInteger ''hw1'' ''publishRaw''))"
    using spec [where r = registry6 and h = store6 and hw = "''hw1''"
        and p = 109 and a = "''publishRaw''" and v = "''true''" and ds = "''''"
        and cfg = "\<lparr>DataType = ''boolean'', Description = ''Enable publishing raw outputs'',
                    Default = ''true''\<rparr>"] reg6 cfg6 attr6
    by (simp add: strconv_Atoi_def)
  have nokey: "GetNodeConfigString registry6 store6 ''hw1'' ''bogus'' ''none''
     = (''none'', Some (ConfigNotFound ''hw1'' ''bogus''))"
    using spec [where r = registry6 and h = store6 and hw = "''hw1''"
        and p = 109 and a = "''bogus''" and ds = "''none''" and cfg = intervalConfig
        and v = "''''"] reg6 cfg6
    by simp
  have nodevice: "GetNodeConfigString registry6 store6 ''hw7'' ''interval'' ''none''
     = (''none'', Some (DeviceNotFound ''hw7''))"
    using spec [where r = registry6 and h = store6 and hw = "''hw7''"
        and a = "''interval''" and ds = "''none''" and p = 109 and cfg = intervalConfig
        and v = "''''"] reg6
    by simp
  from configured5 configured6 default stored caller unparsable nokey nodevice
  show ?thesis by simp
qed

section \<open>Updating a node\<close>

text \<open>What holds of claim C4. \<^verbatim>\<open>Clone\<close> allocates the clone and its \<open>Attr\<close> and \<open>Status\<close>
  maps; the loops write to the maps of the clone and \<^verbatim>\<open>updateNode\<close> to its timestamp. So
  \<^verbatim>\<open>UpdateNodeAttr\<close>, \<^verbatim>\<open>UpdateNodeStatus\<close>, \<^verbatim>\<open>UpdateErrorStatus\<close> and
  \<^verbatim>\<open>UpdateNodeConfigValues\<close> leave every node and every map that was allocated before
  the call as it was. \<^verbatim>\<open>UpdateNodeConfig\<close> and \<^verbatim>\<open>CreateNodeConfig\<close> leave the nodes and their
  \<open>Attr\<close> and \<open>Status\<close> maps as they were, not the \<open>Config\<close> maps.\<close>

lemma Clone_result:
  "Clone h p = (newNode, h1) \<Longrightarrow>
     newNode = nextPtr h + 2 \<and> nextPtr h1 = nextPtr h + 3 \<and>
     Attr (nodes h1 newNode) = nextPtr h \<and> Status (nodes h1 newNode) = nextPtr h + 1 \<and>
     Config (nodes h1 newNode) = Config (nodes h p) \<and>
     HWID (nodes h1 newNode) = HWID (nodes h p) \<and>
     attrMaps h1 (nextPtr h) = attrMaps h (Attr (nodes h p)) \<and>
     statusMaps h1 (nextPtr h + 1) = statusMaps h (Status (nodes h p)) \<and>
     configMaps h1 = configMaps h \<and>
     (\<forall>x < nextPtr h. nodes h1 x = nodes h x \<and> attrMaps h1 x = attrMaps h x \<and>
        statusMaps h1 x = statusMaps h x)"
  by (auto simp: Clone_def allocAttr_def allocStatus_def allocNode_def Let_def)

lemma UpdateNodeAttr_range_frame:
  "UpdateNodeAttr_range h newNode ps ch = (h', ch') \<Longrightarrow>
     nodes h' = nodes h \<and> configMaps h' = configMaps h \<and> statusMaps h' = statusMaps h \<and>
     (\<forall>a. a \<noteq> Attr (nodes h newNode) \<longrightarrow> attrMaps h' a = attrMaps h a)"
proof (induction ps arbitrary: h ch)
  case Nil
  then show ?case by simp
next
  case (Cons kv ps)
  obtain key v where kv: "kv = (key, v)" by (cases kv)
  show ?case
  proof (cases "attrValue h newNode key \<noteq> v")
    case True
    with Cons.prems kv
    have "UpdateNodeAttr_range (setAttr h newNode key v) newNode ps True = (h', ch')" by simp
    from Cons.IH [OF this] show ?thesis by (simp add: setAttr_def)
  next
    case False
    with Cons.prems kv have "UpdateNodeAttr_range h newNode ps ch = (h', ch')" by simp
    from Cons.IH [OF this] show ?thesis .
  qed
qed

lemma UpdateNodeStatus_range_frame:
  "UpdateNodeStatus_range h newNode ps ch = (h', ch') \<Longrightarrow>
     nodes h' = nodes h \<and> configMaps h' = configMaps h \<and> attrMaps h' = attrMaps h \<and>
     (\<forall>a. a \<noteq> Status (nodes h newNode) \<longrightarrow> statusMaps h' a = statusMaps h a)"
proof (induction ps arbitrary: h ch)
  case Nil
  then show ?case by simp
next
  case (Cons kv ps)
  obtain key v where kv: "kv = (key, v)" by (cases kv)
  show ?case
  proof (cases "statusValue h newNode key \<noteq> v")
    case True
    with Cons.prems kv
    have "UpdateNodeStatus_range (setStatus h newNode key v) newNode ps True = (h', ch')" by simp
    from Cons.IH [OF this] show ?thesis by (simp add: setStatus_def)
  next
    case False
    with Cons.prems kv have "UpdateNodeStatus_range h newNode ps ch = (h', ch')" by simp
    from Cons.IH [OF this] show ?thesis .
  qed
qed

lemma UpdateNodeConfigValues_range_frame:
  "UpdateNodeConfigValues_range h node newNode ps ch = (h', ch') \<Longrightarrow>
     nodes h' = nodes h \<and> configMaps h' = configMaps h \<and> statusMaps h' = statusMaps h \<and>
     (\<forall>a. a \<noteq> Attr (nodes h newNode) \<longrightarrow> attrMaps h' a = attrMaps h a)"
proof (induction h node newNode ps ch rule: UpdateNodeConfigValues_range.induct)
  case (1 h node newNode changed)
  then show ?case by simp
next
  case (2 h node newNode key newValue params changed)
  then show ?case
    by (auto simp: setAttr_def split: option.splits if_splits)
qed

lemma updateNode_frame:
  "updateNode r h (Some q) = (r', h') \<Longrightarrow>
     attrMaps h' = attrMaps h \<and> configMaps h' = configMaps h \<and> statusMaps h' = statusMaps h \<and>
     (\<forall>x. x \<noteq> q \<longrightarrow> nodes h' x = nodes h x)"
  by (auto simp: updateNode_def timeNow_def Let_def)


lemma UpdateNodeAttr_frame:
  assumes run: "UpdateNodeAttr r h hw ps = (ch, r', h')" and old: "x < nextPtr h"
  shows "nodes h' x = nodes h x \<and> attrMaps h' x = attrMaps h x \<and>
         configMaps h' x = configMaps h x \<and> statusMaps h' x = statusMaps h x"
proof (cases "GetNodeByHWID r hw")
  case None
  with run show ?thesis by (simp add: UpdateNodeAttr_def)
next
  case (Some node)
  obtain newNode h1 where cl: "Clone h node = (newNode, h1)" by (cases "Clone h node") auto
  obtain h2 changed where lp: "UpdateNodeAttr_range h1 newNode ps False = (h2, changed)"
    by (cases "UpdateNodeAttr_range h1 newNode ps False") auto
  note c = Clone_result [OF cl]
  note l = UpdateNodeAttr_range_frame [OF lp]
  from c l old have mid: "nodes h2 x = nodes h x \<and> attrMaps h2 x = attrMaps h x \<and>
         configMaps h2 x = configMaps h x \<and> statusMaps h2 x = statusMaps h x"
    by auto
  show ?thesis
  proof (cases changed)
    case False
    with run Some cl lp have "h' = h2" by (simp add: UpdateNodeAttr_def)
    with mid show ?thesis by simp
  next
    case True
    with run Some cl lp have "updateNode r h2 (Some newNode) = (r', h')"
      by (simp add: UpdateNodeAttr_def split: prod.splits)
    from updateNode_frame [OF this] c old mid show ?thesis by auto
  qed
qed

lemma UpdateNodeStatus_frame:
  assumes run: "UpdateNodeStatus r h hw ps = (ch, r', h')" and old: "x < nextPtr h"
  shows "nodes h' x = nodes h x \<and> attrMaps h' x = attrMaps h x \<and>
         configMaps h' x = configMaps h x \<and> statusMaps h' x = statusMaps h x"
proof (cases "GetNodeByHWID r hw")
  case None
  with run show ?thesis by (simp add: UpdateNodeStatus_def)
next
  case (Some node)
  obtain newNode h1 where cl: "Clone h node = (newNode, h1)" by (cases "Clone h node") auto
  obtain h2 changed where lp: "UpdateNodeStatus_range h1 newNode ps False = (h2, changed)"
    by (cases "UpdateNodeStatus_range h1 newNode ps False") auto
  note c = Clone_result [OF cl]
  note l = UpdateNodeStatus_range_frame [OF lp]
  from c l old have mid: "nodes h2 x = nodes h x \<and> attrMaps h2 x = attrMaps h x \<and>
         configMaps h2 x = configMaps h x \<and> statusMaps h2 x = statusMaps h x"
    by auto
  show ?thesis
  proof (cases changed)
    case False
    with run Some cl lp have "h' = h2" by (simp add: UpdateNodeStatus_def)
    with mid show ?thesis by simp
  next
    case True
    with run Some cl lp have "updateNode r h2 (Some newNode) = (r', h')"
      by (simp add: UpdateNodeStatus_def split: prod.splits)
    from updateNode_frame [OF this] c old mid show ?thesis by auto
  qed
qed

lemma UpdateNodeConfigValues_frame:
  assumes run: "UpdateNodeConfigValues r h hw params = (ch, r', h')" and old: "x < nextPtr h"
  shows "nodes h' x = nodes h x \<and> attrMaps h' x = attrMaps h x \<and>
         configMaps h' x = configMaps h x \<and> statusMaps h' x = statusMaps h x"
proof (cases "GetNodeByHWID r hw")
  case None
  with run show ?thesis by (simp add: UpdateNodeConfigValues_def)
next
  case (Some node)
  show ?thesis
  proof (cases params)
    case None
    with run Some show ?thesis by (simp add: UpdateNodeConfigValues_def)
  next
    case ps: (Some ps)
    obtain newNode h1 where cl: "Clone h node = (newNode, h1)" by (cases "Clone h node") auto
    obtain h2 changed where lp:
      "UpdateNodeConfigValues_range h1 node newNode ps False = (h2, changed)"
      by (cases "UpdateNodeConfigValues_range h1 node newNode ps False") auto
    note c = Clone_result [OF cl]
    note l = UpdateNodeConfigValues_range_frame [OF lp]
    from c l old have mid: "nodes h2 x = nodes h x \<and> attrMaps h2 x = attrMaps h x \<and>
           configMaps h2 x = configMaps h x \<and> statusMaps h2 x = statusMaps h x"
      by auto
    show ?thesis
    proof (cases changed)
      case False
      with run Some ps cl lp have "h' = h2" by (simp add: UpdateNodeConfigValues_def)
      with mid show ?thesis by simp
    next
      case True
      with run Some ps cl lp have "updateNode r h2 (Some newNode) = (r', h')"
        by (simp add: UpdateNodeConfigValues_def split: prod.splits)
      from updateNode_frame [OF this] c old mid show ?thesis by auto
    qed
  qed
qed

lemma UpdateErrorStatus_frame:
  assumes run: "UpdateErrorStatus c r h hw runState errorMsg = (ch, r', h')"
    and old: "x < nextPtr h"
  shows "nodes h' x = nodes h x \<and> attrMaps h' x = attrMaps h x \<and>
         configMaps h' x = configMaps h x \<and> statusMaps h' x = statusMaps h x"
proof (cases "GetNodeByHWID r hw")
  case None
  with run show ?thesis by (simp add: UpdateErrorStatus_def)
next
  case (Some node)
  obtain newNode h1 where cl: "Clone h node = (newNode, h1)" by (cases "Clone h node") auto
  note c = Clone_result [OF cl]
  define h2 where "h2 = (if statusValue h1 node (NodeStatusLastError c) \<noteq> errorMsg
                  then setStatus h1 newNode (NodeStatusLastError c) errorMsg else h1)"
  define h3 where "h3 = (if statusValue h2 node (NodeStatusRunState c) \<noteq> runState
                  then setStatus h2 newNode (NodeStatusRunState c) runState else h2)"
  from c old have mid: "nodes h3 = nodes h1 \<and> attrMaps h3 = attrMaps h1 \<and>
         configMaps h3 = configMaps h1 \<and> statusMaps h3 x = statusMaps h1 x"
    by (auto simp: h3_def h2_def setStatus_def)
  from run Some cl have "h' = h3 \<or> (\<exists>r0. updateNode r0 h3 (Some newNode) = (r', h'))"
    by (auto simp: UpdateErrorStatus_def h3_def h2_def Let_def split: if_splits prod.splits)
  then show ?thesis
  proof
    assume "h' = h3"
    with mid c old show ?thesis by auto
  next
    assume "\<exists>r0. updateNode r0 h3 (Some newNode) = (r', h')"
    then obtain r0 where "updateNode r0 h3 (Some newNode) = (r', h')" ..
    from updateNode_frame [OF this] c old mid show ?thesis by auto
  qed
qed

lemma UpdateNodeConfig_frame:
  assumes run: "UpdateNodeConfig r h hw attrName configAttr = (r', h')" and old: "x < nextPtr h"
  shows "nodes h' x = nodes h x \<and> attrMaps h' x = attrMaps h x \<and>
         statusMaps h' x = statusMaps h x"
proof (cases "\<exists>node config. GetNodeByHWID r hw = Some node \<and> configAttr = Some config \<and>
                attrName \<noteq> ''''")
  case False
  with run have "h' = h"
    by (auto simp: UpdateNodeConfig_def split: option.splits if_splits)
  then show ?thesis by simp
next
  case True
  then obtain node config where n: "GetNodeByHWID r hw = Some node"
    and cf: "configAttr = Some config" and nm: "attrName \<noteq> ''''" by auto
  obtain newNode h1 where cl: "Clone h node = (newNode, h1)" by (cases "Clone h node") auto
  note c = Clone_result [OF cl]
  from run n cf nm cl
  have "updateNode r (setConfig h1 newNode attrName config) (Some newNode) = (r', h')"
    by (simp add: UpdateNodeConfig_def)
  from updateNode_frame [OF this] c old show ?thesis by (auto simp: setConfig_def)
qed

lemma CreateNodeConfig_frame:
  assumes run: "CreateNodeConfig r h hw attrName dataType description defaultValue = (cfg, r', h')"
    and old: "x < nextPtr h"
  shows "nodes h' x = nodes h x \<and> attrMaps h' x = attrMaps h x \<and>
         statusMaps h' x = statusMaps h x"
proof (cases "GetNodeByHWID r hw")
  case None
  with run show ?thesis by (simp add: CreateNodeConfig_def)
next
  case (Some node)
  obtain newNode h1 where cl: "Clone h node = (newNode, h1)" by (cases "Clone h node") auto
  note c = Clone_result [OF cl]
  from run Some cl
  obtain config where
    "updateNode r (setConfig h1 newNode attrName config) (Some newNode) = (r', h')"
    by (auto simp: CreateNodeConfig_def Let_def split: prod.splits)
  from updateNode_frame [OF this] c old show ?thesis by (auto simp: setConfig_def)
qed

text \<open>
  Claim C4 at a failing input. The registry holds the node of \<^verbatim>\<open>hw1\<close> at address 103,
  and the node has no configuration \<^verbatim>\<open>interval\<close>. After
  \<^verbatim>\<open>UpdateNodeConfig("hw1", "interval", &intervalConfig)\<close> the node at 103, the value that was
  referenced before the call, has that configuration: \<^verbatim>\<open>Clone\<close> copied the reference to the
  \<open>Config\<close> map, and the write to the clone's map is a write to the old node's map.
  \<^verbatim>\<open>CreateNodeConfig\<close> with the same values ends in the same state.
\<close>

theorem UpdateNodeConfig_changes_old_node:
  "CreateNode stdTypes registry0 emptyStore ''hw1'' ''sensor'' = (Some 103, registry1, store1) \<and>
   getConfig store1 103 ''interval'' = None \<and>
   UpdateNodeConfig registry1 store1 ''hw1'' ''interval'' (Some intervalConfig)
     = (registry5, store5) \<and>
   CreateNodeConfig registry1 store1 ''hw1'' ''interval'' ''int'' ''Poll interval'' ''10''
     = (Some intervalConfig, registry5, store5) \<and>
   getConfig store5 103 ''interval'' = Some intervalConfig"
proof -
  have before: "getConfig store1 103 ''interval'' = None"
    by (simp add: getConfig_def store1_def defaultConfig_def)
  have after: "getConfig store5 103 ''interval'' = Some intervalConfig"
    by (simp add: getConfig_def store5_def store1_def)
  from created1 configured5 configured5_create before after show ?thesis by simp
qed

section \<open>Configure commands\<close>

lemmas configure_defs =
  receiveConfigureCommand_def UpdateNodeConfigValues_def receiver1_def configureName_def

text \<open>
  Claim C5. Let \<^verbatim>\<open>DecodeMessage\<close> report for the message whether it is signed and
  encrypted, and the error if any. \<^verbatim>\<open>receiveConfigureCommand\<close> returns the error "not
  encrypted" when the message is not encrypted, the error "not signed" when it is
  encrypted and not signed, and the error of the decoding when it is both and the
  decoding failed; the three errors differ; in each of these cases registry and store
  are returned unchanged. Whenever the registry or the store changes, the message was
  signed and encrypted and decoded without error, so only such a message reaches
  \<^verbatim>\<open>UpdateNodeConfigValues\<close>.
\<close>

theorem receiveConfigureCommand_gate:
  "DecodeConfigureMessage nc message = (isSigned, isEncrypted, err, configureMessage) \<Longrightarrow>
   (\<not> isEncrypted \<longrightarrow>
      receiveConfigureCommand nc r h address message = (Some (NotEncrypted address), r, h)) \<and>
   (isEncrypted \<and> \<not> isSigned \<longrightarrow>
      receiveConfigureCommand nc r h address message = (Some (NotSigned address), r, h)) \<and>
   (isEncrypted \<and> isSigned \<and> err = Some e \<longrightarrow>
      receiveConfigureCommand nc r h address message = (Some (DecodeFailed address e), r, h)) \<and>
   NotEncrypted address \<noteq> NotSigned address \<and>
   NotEncrypted address \<noteq> DecodeFailed address e \<and>
   NotSigned address \<noteq> DecodeFailed address e \<and>
   (snd (receiveConfigureCommand nc r h address message) \<noteq> (r, h) \<longrightarrow>
      isSigned \<and> isEncrypted \<and> err = None)"
  by (cases err) (auto simp: receiveConfigureCommand_def)

text \<open>The witness: the three rejected deliveries to the node of \<^verbatim>\<open>hw1\<close>, and the accepted
  one, which changes the registry.\<close>

theorem receiveConfigureCommand_gate_witness:
  "receiveConfigureCommand receiver1 registry1 store1 ''home/pub1/hw1/$configure'' ''signed''
     = (Some (NotEncrypted ''home/pub1/hw1/$configure''), registry1, store1) \<and>
   receiveConfigureCommand receiver1 registry1 store1 ''home/pub1/hw1/$configure'' ''encrypted''
     = (Some (NotSigned ''home/pub1/hw1/$configure''), registry1, store1) \<and>
   receiveConfigureCommand receiver1 registry1 store1 ''home/pub1/hw1/$configure'' ''garbled''
     = (Some (DecodeFailed ''home/pub1/hw1/$configure'' ''unexpected end of JSON input''),
        registry1, store1) \<and>
   DecodeConfigureMessage receiver1 ''signed+encrypted'' = (True, True, None, configureName) \<and>
   GetNodeByHWID
     (fst (snd (receiveConfigureCommand receiver1 registry1 store1 ''home/pub1/hw1/$configure''
                  ''signed+encrypted''))) ''hw1'' = Some 106"
proof -
  have plain: "DecodeConfigureMessage receiver1 ''signed''
                 = (True, False, None, configureName)"
    and unsigned: "DecodeConfigureMessage receiver1 ''encrypted''
                 = (False, True, None, configureName)"
    and garbled: "DecodeConfigureMessage receiver1 ''garbled''
                 = (True, True, Some ''unexpected end of JSON input'', configureName)"
    and good: "DecodeConfigureMessage receiver1 ''signed+encrypted''
                 = (True, True, None, configureName)"
    by (simp_all add: receiver1_def)
  have applied: "GetNodeByHWID
     (fst (snd (receiveConfigureCommand receiver1 registry1 store1 ''home/pub1/hw1/$configure''
                  ''signed+encrypted''))) ''hw1'' = Some 106"
    by (simp add: configure_defs registry_defs store_defs concrete_defs Let_def)
  from receiveConfigureCommand_gate [OF plain, of registry1 store1 "''home/pub1/hw1/$configure''"]
    receiveConfigureCommand_gate [OF unsigned, of registry1 store1 "''home/pub1/hw1/$configure''"]
    receiveConfigureCommand_gate [OF garbled, of registry1 store1 "''home/pub1/hw1/$configure''"
      "''unexpected end of JSON input''"]
    good applied
  show ?thesis by simp
qed

text \<open>What holds of claim C6. For distinct keys, \<^verbatim>\<open>UpdateNodeConfigValues\<close> leaves the
  node registered for the hwID with the value of every key that has a configuration; and
  a configure command that passes the gate stores the values of such keys on the node it
  resolves to, provided the nodeID of that node is its hwID.\<close>

lemma UpdateNodeConfigValues_range_result:
  assumes "UpdateNodeConfigValues_range h node newNode ps ch = (h', ch')"
    and "Attr (nodes h newNode) \<noteq> Attr (nodes h node)"
    and "distinct (map fst ps)"
    and "\<forall>k. k \<in> fst ` set ps \<longrightarrow> getAttr h newNode k = getAttr h node k"
  shows "(\<forall>k. getAttr h' newNode k =
            (case map_of ps k of
               None \<Rightarrow> getAttr h newNode k
             | Some v \<Rightarrow> if getConfig h node k \<noteq> None then Some v else getAttr h newNode k)) \<and>
         (ch' \<longleftrightarrow> ch \<or> (\<exists>(k, v) \<in> set ps. getConfig h node k \<noteq> None \<and> getAttr h node k \<noteq> Some v))"
  using assms
proof (induction h node newNode ps ch rule: UpdateNodeConfigValues_range.induct)
  case (1 h node newNode changed)
  then show ?case by simp
next
  case (2 h node newNode key newValue params changed)
  let ?hw = "setAttr h newNode key newValue"
  have rest: "distinct (map fst params)" and fresh: "key \<notin> fst ` set params"
    using "2.prems"(3) by auto
  have absent: "map_of params key = None"
    using fresh by (simp add: map_of_eq_None_iff)
  have same: "\<forall>k. k \<in> fst ` set params \<longrightarrow> getAttr h newNode k = getAttr h node k"
    using "2.prems"(4) by simp
  have here: "getAttr h newNode key = getAttr h node key"
    using "2.prems"(4) by simp
  have w_nodes: "nodes ?hw = nodes h" and w_cfg: "getConfig ?hw node = getConfig h node"
    and w_old: "getAttr ?hw node = getAttr h node"
    and w_new: "\<And>k. getAttr ?hw newNode k = (if k = key then Some newValue else getAttr h newNode k)"
    using "2.prems"(2) by (auto simp: setAttr_def getConfig_def getAttr_def)
  show ?case
  proof (cases "getConfig h node key")
    case None
    with "2.prems"(1)
    have run: "UpdateNodeConfigValues_range h node newNode params changed = (h', ch')" by simp
    from "2.IH"(1) [OF None run "2.prems"(2) rest same] None absent fresh
    show ?thesis by (auto split: option.splits)
  next
    case (Some cfg)
    show ?thesis
    proof (cases "getAttr h node key = Some newValue")
      case True
      with Some "2.prems"(1)
      have run: "UpdateNodeConfigValues_range h node newNode params changed = (h', ch')" by simp
      from "2.IH"(4) [OF Some True _ run "2.prems"(2) rest same] True here Some absent fresh
      show ?thesis by (auto split: option.splits)
    next
      case False
      with Some "2.prems"(1)
      have run: "UpdateNodeConfigValues_range ?hw node newNode params True = (h', ch')"
        by (auto split: option.splits)
      have ih: "(\<forall>k. getAttr h' newNode k =
            (case map_of params k of
               None \<Rightarrow> getAttr ?hw newNode k
             | Some v \<Rightarrow> if getConfig ?hw node k \<noteq> None then Some v else getAttr ?hw newNode k)) \<and>
         (ch' \<longleftrightarrow> True \<or> (\<exists>(k, v) \<in> set params. getConfig ?hw node k \<noteq> None \<and>
                                getAttr ?hw node k \<noteq> Some v))"
      proof (cases "getAttr h node key")
        case None
        from "2.IH"(2) [OF Some None run] "2.prems"(2) rest same fresh w_nodes w_old w_new
        show ?thesis by auto
      next
        case (Some oldValue)
        with False have ne: "oldValue \<noteq> newValue" by simp
        from "2.IH"(3) [OF \<open>getConfig h node key = Some cfg\<close> Some ne run]
          "2.prems"(2) rest same fresh w_nodes w_old w_new
        show ?thesis by auto
      qed
      with w_cfg w_new w_old False Some absent fresh
      show ?thesis by (auto split: option.splits)
    qed
  qed
qed

lemma updateNode_registers:
  "updateNode r h (Some q) = (r', h') \<Longrightarrow>
     GetNodeByHWID r' (HWID (nodes h q)) = Some q \<and> Attr (nodes h' q) = Attr (nodes h q)"
  by (auto simp: updateNode_def timeNow_def GetNodeByHWID_def lookupPtr_def Let_def)

lemma UpdateNodeConfigValues_stores:
  assumes reg: "GetNodeByHWID r hw = Some node" and hwid: "HWID (nodes h node) = hw"
    and alloc: "node < nextPtr h" "Attr (nodes h node) < nextPtr h"
    and keys: "distinct (map fst ps)"
    and run: "UpdateNodeConfigValues r h hw (Some ps) = (changed, r', h')"
    and kv: "(k, v) \<in> set ps" and cfg: "getConfig h node k \<noteq> None"
  shows "\<exists>p. GetNodeByHWID r' hw = Some p \<and> getAttr h' p k = Some v"
proof -
  obtain newNode h1 where cl: "Clone h node = (newNode, h1)" by (cases "Clone h node") auto
  obtain h2 ch where lp: "UpdateNodeConfigValues_range h1 node newNode ps False = (h2, ch)"
    by (cases "UpdateNodeConfigValues_range h1 node newNode ps False") auto
  note c = Clone_result [OF cl]
  from c alloc have new: "newNode \<noteq> node" and old1: "nodes h1 node = nodes h node"
    and attr1: "attrMaps h1 (Attr (nodes h node)) = attrMaps h (Attr (nodes h node))"
    by auto
  have differ: "Attr (nodes h1 newNode) \<noteq> Attr (nodes h1 node)"
    using c alloc old1 by auto
  have copy: "\<forall>k. k \<in> fst ` set ps \<longrightarrow> getAttr h1 newNode k = getAttr h1 node k"
    using c old1 attr1 by (auto simp: getAttr_def)
  have cfg1: "getConfig h1 node = getConfig h node" and get1: "getAttr h1 node = getAttr h node"
    using c old1 attr1 by (auto simp: getConfig_def getAttr_def)
  note res = UpdateNodeConfigValues_range_result [OF lp differ keys copy]
  have mapped: "map_of ps k = Some v"
    using keys kv by simp
  from res mapped cfg cfg1 have stored: "getAttr h2 newNode k = Some v"
    by (auto split: option.splits)
  note fr = UpdateNodeConfigValues_range_frame [OF lp]
  show ?thesis
  proof (cases ch)
    case True
    with run reg cl lp have up: "updateNode r h2 (Some newNode) = (r', h')"
      by (simp add: UpdateNodeConfigValues_def split: prod.splits)
    have "HWID (nodes h2 newNode) = hw"
      using fr c hwid by auto
    with updateNode_registers [OF up] have "GetNodeByHWID r' hw = Some newNode"
      and "Attr (nodes h' newNode) = Attr (nodes h2 newNode)" by auto
    moreover from updateNode_frame [OF up] have "attrMaps h' = attrMaps h2" by simp
    ultimately show ?thesis using stored by (auto simp: getAttr_def)
  next
    case False
    with run reg cl lp have same: "r' = r" "h' = h2"
      by (simp_all add: UpdateNodeConfigValues_def)
    from False res kv cfg cfg1 get1 have "getAttr h node k = Some v" by auto
    moreover have "getAttr h2 node k = getAttr h node k"
      using fr c alloc old1 attr1 by (auto simp: getAttr_def)
    ultimately show ?thesis using same reg by auto
  qed
qed

lemma receiveConfigureCommand_stores:
  assumes dec: "DecodeConfigureMessage nc message = (True, True, None, configureMessage)"
    and node: "GetNodeByAddress r address = Some node" and msg: "message \<noteq> ''''"
    and params: "(case nodeConfigureHandler nc of
                    None \<Rightarrow> ConfigureAttr configureMessage
                  | Some handler \<Rightarrow> handler address (ConfigureAttr configureMessage)) = Some ps"
    and keys: "distinct (map fst ps)"
    and same: "NodeID (nodes h node) = HWID (nodes h node)"
    and reg: "GetNodeByHWID r (HWID (nodes h node)) = Some node"
    and alloc: "node < nextPtr h" "Attr (nodes h node) < nextPtr h"
    and kv: "(k, v) \<in> set ps" and cfg: "getConfig h node k \<noteq> None"
    and run: "receiveConfigureCommand nc r h address message = (err, r', h')"
  shows "err = None \<and> (\<exists>p. GetNodeByHWID r' (HWID (nodes h node)) = Some p \<and> getAttr h' p k = Some v)"
proof -
  obtain changed where up:
    "UpdateNodeConfigValues r h (HWID (nodes h node)) (Some ps) = (changed, r', h')"
    and ok: "err = None"
    using run dec node msg params same
    by (cases "UpdateNodeConfigValues r h (HWID (nodes h node)) (Some ps)")
       (auto simp: receiveConfigureCommand_def Let_def)
  from UpdateNodeConfigValues_stores [OF reg refl alloc keys up kv cfg] ok
  show ?thesis by simp
qed

text \<open>
  Claim C6 at a failing input. The node of \<^verbatim>\<open>hw1\<close> has been renamed to \<^verbatim>\<open>kitchen\<close> with
  \<^verbatim>\<open>SetNodeID\<close>; it is the node at 106 and has the configuration \<^verbatim>\<open>name\<close>. The configure
  command to \<^verbatim>\<open>home/pub1/kitchen/$configure\<close> is signed and encrypted, decodes, resolves to
  that node and carries the attribute map \<^verbatim>\<open>{"name": "Kitchen"}\<close>. The command returns no
  error and stores nothing: \<^verbatim>\<open>receiveConfigureCommand\<close> passes the node's nodeID to
  \<^verbatim>\<open>UpdateNodeConfigValues\<close>, which looks the node up by hwID and finds none. For the
  node that was not renamed (nodeID and hwID both \<^verbatim>\<open>hw1\<close>) the same command stores the
  name.
\<close>

theorem receiveConfigureCommand_renamed_node:
  "SetNodeID stdTypes registry1 store1 (Some 103) ''kitchen'' = (True, registry2, store2) \<and>
   DecodeConfigureMessage receiver1 ''signed+encrypted'' = (True, True, None, configureName) \<and>
   ConfigureAttr configureName = Some [(''name'', ''Kitchen'')] \<and>
   GetNodeByAddress registry2 ''home/pub1/kitchen/$configure'' = Some 106 \<and>
   getConfig store2 106 ''name'' = defaultConfig ''name'' \<and>
   defaultConfig ''name'' \<noteq> None \<and>
   receiveConfigureCommand receiver1 registry2 store2 ''home/pub1/kitchen/$configure''
     ''signed+encrypted'' = (None, registry2, store2) \<and>
   getAttr store2 106 ''name'' = None \<and>
   getAttr
     (snd (snd (receiveConfigureCommand receiver1 registry1 store1 ''home/pub1/hw1/$configure''
                  ''signed+encrypted''))) 106 ''name'' = Some ''Kitchen''"
proof -
  have good: "DecodeConfigureMessage receiver1 ''signed+encrypted''
                = (True, True, None, configureName)"
    by (simp add: receiver1_def)
  have attr: "ConfigureAttr configureName = Some [(''name'', ''Kitchen'')]"
    by (simp add: configureName_def)
  have node: "GetNodeByAddress registry2 ''home/pub1/kitchen/$configure'' = Some 106"
    by (simp add: GetNodeByAddress_def lookupPtr_def registry2_def)
  have cfg: "getConfig store2 106 ''name'' = defaultConfig ''name''"
    by (simp add: getConfig_def store2_def store1_def)
  have cfg': "defaultConfig ''name'' \<noteq> None"
    by (simp add: defaultConfig_def)
  have dropped: "receiveConfigureCommand receiver1 registry2 store2
      ''home/pub1/kitchen/$configure'' ''signed+encrypted'' = (None, registry2, store2)"
    by (simp add: configure_defs registry_defs store_defs registry2_def store2_def store1_def
          Let_def)
  have none: "getAttr store2 106 ''name'' = None"
    by (simp add: getAttr_def store2_def store1_def)
  have stored: "getAttr
     (snd (snd (receiveConfigureCommand receiver1 registry1 store1 ''home/pub1/hw1/$configure''
                  ''signed+encrypted''))) 106 ''name'' = Some ''Kitchen''"
    by (simp add: configure_defs registry_defs store_defs concrete_defs Let_def)
  from renamed2 good attr node cfg cfg' dropped none stored show ?thesis by simp
qed

section \<open>Set commands\<close>

lemmas set_defs =
  decodeSetCommand_def NotifyInputHandler_def stdTypes_def setOn_def ifset0_def ifset1_def
  ifset2_def Let_def

lemma delivered:
  "decodeSetCommand stdTypes ifset0 ''home/pub1/kitchen/switch/0/$set'' ''message'' = (None, ifset1)"
  "decodeSetCommand stdTypes ifset1 ''home/pub1/kitchen/switch/0/$set'' ''message'' = (None, ifset2)"
  by (simp_all add: set_defs)

text \<open>The part of claim C1 that holds: a command that is signed, encrypted and decoded,
  and whose timestamp is smaller than the one recorded for its sender, is rejected, and
  the receiver (timestamp table and inputs) is unchanged.\<close>

lemma decodeSetCommand_rejects_earlier:
  assumes "DecodeSetMessage ifset message = (True, True, None, setMessage)"
    and "senderTimestamp ifset (Sender setMessage) = Some prevTimestamp"
    and "SetTimestamp setMessage < prevTimestamp"
    and "6 \<le> length (strings_Split address CHR ''/'')"
  shows "decodeSetCommand c ifset address message
           = (Some (EarlierTimestamp address (Sender setMessage)), ifset)"
  using assms by (simp add: decodeSetCommand_def Let_def)

text \<open>
  Claim C1 at a failing input. The receiver has accepted a set command of the sender
  \<^verbatim>\<open>home/admin\<close> with the timestamp \<^verbatim>\<open>2020-06-01T12:05:00.000-0700\<close> and recorded that
  timestamp. The same command is delivered again: its timestamp is equal to the recorded
  one, so it is not strictly newer. It is accepted without error and the callback of the
  input is invoked a second time: the code rejects only when the recorded timestamp is
  greater (\<^verbatim>\<open>prevTimestamp > setMessage.Timestamp\<close>).
\<close>

theorem decodeSetCommand_accepts_replay:
  "decodeSetCommand stdTypes ifset0 ''home/pub1/kitchen/switch/0/$set'' ''message'' = (None, ifset1) \<and>
   DecodeSetMessage ifset1 ''message'' = (True, True, None, setOn) \<and>
   senderTimestamp ifset1 (Sender setOn) = Some (SetTimestamp setOn) \<and>
   decodeSetCommand stdTypes ifset1 ''home/pub1/kitchen/switch/0/$set'' ''message'' = (None, ifset2) \<and>
   invoked (registeredInputs ifset2)
     = invoked (registeredInputs ifset1)
         @ [(''home/pub1/kitchen/switch/0/$input'', ''home/admin'', ''on'')]"
proof -
  have dec: "DecodeSetMessage ifset1 ''message'' = (True, True, None, setOn)"
    by (simp add: ifset1_def ifset0_def)
  have rec: "senderTimestamp ifset1 (Sender setOn) = Some (SetTimestamp setOn)"
    by (simp add: ifset1_def setOn_def)
  have inv: "invoked (registeredInputs ifset2)
     = invoked (registeredInputs ifset1)
         @ [(''home/pub1/kitchen/switch/0/$input'', ''home/admin'', ''on'')]"
    by (simp add: ifset2_def ifset1_def)
  from delivered dec rec inv show ?thesis by simp
qed

text \<open>
  Claim C3 at a failing input. No input is registered under
  \<^verbatim>\<open>home/pub1/kitchen/switch/9/$input\<close>, the discovery address derived from the address of
  the set command. The command is signed, encrypted and decoded. The code returns no
  error, and it records the timestamp of the command for its sender; no callback is
  invoked. The code never tests whether the derived address is one of its inputs.
\<close>

theorem decodeSetCommand_unknown_input:
  "''home/pub1/kitchen/switch/9/$input'' \<notin> handlers (registeredInputs ifset0) \<and>
   DecodeSetMessage ifset0 ''message'' = (True, True, None, setOn) \<and>
   senderTimestamp ifset0 (Sender setOn) = None \<and>
   decodeSetCommand stdTypes ifset0 ''home/pub1/kitchen/switch/9/$set'' ''message''
     = (None, ifset0\<lparr>senderTimestamp := [Sender setOn \<mapsto> SetTimestamp setOn]\<rparr>)"
  by (simp add: set_defs)

section \<open>Publisher identities\<close>





end
